theory Spec2Isabelle
  imports Main
begin

section \<open>Python string and integer primitives used by the handlers\<close>

text \<open>
  Strings are byte lists.  The handlers of \<^verbatim>\<open>app.py\<close> use \<^verbatim>\<open>str.strip()\<close>,
  \<^verbatim>\<open>str.startswith\<close>, \<^verbatim>\<open>str.split(sep, 1)\<close>, \<^verbatim>\<open>int(str)\<close> and the format
  specification \<^verbatim>\<open>{n:04d}\<close>.  They are modelled on ASCII input: the whitespace
  characters of \<^verbatim>\<open>str.strip()\<close> are the ASCII ones Python strips (TAB, LF, VT, FF, CR, FS,
  GS, RS, US, SPACE) and the digits are \<^verbatim>\<open>0\<close> to \<^verbatim>\<open>9\<close>.
\<close>

definition py_isspace :: "char \<Rightarrow> bool" where
  "py_isspace c = (let n = (of_char c :: nat) in (9 \<le> n \<and> n \<le> 13) \<or> (28 \<le> n \<and> n \<le> 32))"

definition py_strip :: "string \<Rightarrow> string" where
  "py_strip s = rev (dropWhile py_isspace (rev (dropWhile py_isspace s)))"

definition is_digit :: "char \<Rightarrow> bool" where
  "is_digit c = (let n = (of_char c :: nat) in 48 \<le> n \<and> n \<le> 57)"

definition digit_val :: "char \<Rightarrow> int" where
  "digit_val c = int (of_char c) - 48"

text \<open>
  The whitespace that \<^verbatim>\<open>int(s)\<close> skips around the number of an ASCII text: TAB, LF, VT,
  FF, CR and SPACE only.  On FS, GS, RS and US, which \<^verbatim>\<open>str.strip()\<close> removes, \<^verbatim>\<open>int\<close>
  raises \<^verbatim>\<open>ValueError\<close>.
\<close>

definition int_isspace :: "char \<Rightarrow> bool" where
  "int_isspace c = (let n = (of_char c :: nat) in (9 \<le> n \<and> n \<le> 13) \<or> n = 32)"

definition int_strip :: "string \<Rightarrow> string" where
  "int_strip s = rev (dropWhile int_isspace (rev (dropWhile int_isspace s)))"

text \<open>
  \<^verbatim>\<open>int(s)\<close> in base 10: surrounding whitespace is skipped, one sign is allowed, and
  single underscores may separate digits.  \<open>None\<close> stands for \<^verbatim>\<open>ValueError\<close>.
  \<open>digits_value acc prev s\<close> reads the digit string \<open>s\<close>; \<open>prev\<close> records that the
  previous character was a digit, which an underscore and the end of the string require.
\<close>

fun digits_value :: "int \<Rightarrow> bool \<Rightarrow> string \<Rightarrow> int option" where
  "digits_value acc prev [] = (if prev then Some acc else None)"
| "digits_value acc prev (c # cs) =
     (if is_digit c then digits_value (acc * 10 + digit_val c) True cs
      else if c = CHR ''_'' \<and> prev then digits_value acc False cs
      else None)"

definition py_int :: "string \<Rightarrow> int option" where
  "py_int s =
     (case int_strip s of
        [] \<Rightarrow> None
      | c # cs \<Rightarrow>
          if c = CHR ''-'' then map_option uminus (digits_value 0 False cs)
          else if c = CHR ''+'' then digits_value 0 False cs
          else digits_value 0 False (c # cs))"

section \<open>Quantity apportionment in \<^verbatim>\<open>confirm_rdo\<close>\<close>


text \<open>\<^verbatim>\<open>int(str(q_raw).strip())\<close>, with 0 on \<^verbatim>\<open>ValueError\<close>.\<close>

definition parse_qty :: "string \<Rightarrow> int" where
  "parse_qty q_raw = (case py_int (py_strip q_raw) of Some n \<Rightarrow> n | None \<Rightarrow> 0)"

text \<open>The two clamps: the first date gets at least 1, no date gets more than the residual.\<close>

definition clamp_qty :: "nat \<Rightarrow> int \<Rightarrow> int \<Rightarrow> int" where
  "clamp_qty idx remaining qty_int =
     (let q1 = (if idx = 0 \<and> qty_int < 1 then 1 else qty_int)
      in if q1 > remaining then remaining else q1)"

text \<open>
  The producer of a date: the entry of \<^verbatim>\<open>prods_list\<close> at the same index when it is not
  blank, else \<^verbatim>\<open>form_prod\<close>, else \<^verbatim>\<open>None\<close>.
\<close>

definition prod_val_of :: "string list \<Rightarrow> string \<Rightarrow> nat \<Rightarrow> string option" where
  "prod_val_of prods_list form_prod idx =
     (let p = (if prods_list \<noteq> [] \<and> idx < length prods_list
               then py_strip (prods_list ! idx) else [])
      in if p \<noteq> [] then Some p
         else if form_prod \<noteq> [] then Some form_prod else None)"

text \<open>
  The loop over \<^verbatim>\<open>enumerate(zip(dates_list, qtys_list))\<close>.  A pair with a blank date is
  skipped by \<^verbatim>\<open>continue\<close>; its index is consumed all the same.  The loop breaks as soon
  as the residual is \<open>\<le> 0\<close>.
\<close>

fun clean_pairs_loop ::
  "string list \<Rightarrow> string \<Rightarrow> nat \<Rightarrow> int \<Rightarrow> (string \<times> string) list
     \<Rightarrow> (string \<times> int \<times> string option) list" where
  "clean_pairs_loop prods_list form_prod idx remaining [] = []"
| "clean_pairs_loop prods_list form_prod idx remaining ((dt_raw, q_raw) # rest) =
     (if py_strip dt_raw = [] then
        clean_pairs_loop prods_list form_prod (Suc idx) remaining rest
      else if clamp_qty idx remaining (parse_qty q_raw) > 0 then
        (py_strip dt_raw, clamp_qty idx remaining (parse_qty q_raw),
           prod_val_of prods_list form_prod idx)
        # (if remaining - clamp_qty idx remaining (parse_qty q_raw) \<le> 0 then []
           else clean_pairs_loop prods_list form_prod (Suc idx)
                  (remaining - clamp_qty idx remaining (parse_qty q_raw)) rest)
      else if remaining \<le> 0 then []
      else clean_pairs_loop prods_list form_prod (Suc idx) remaining rest)"

definition clean_pairs ::
  "int \<Rightarrow> string list \<Rightarrow> string list \<Rightarrow> string list \<Rightarrow> string
     \<Rightarrow> (string \<times> int \<times> string option) list" where
  "clean_pairs total_qty dates_list qtys_list prods_list form_prod =
     (if dates_list \<noteq> [] then
        clean_pairs_loop prods_list form_prod 0 total_qty (zip dates_list qtys_list)
      else [])"

text \<open>The accepted (date, quantity) pairs and their total.\<close>

definition accepted_pairs :: "(string \<times> int \<times> string option) list \<Rightarrow> (string \<times> int) list" where
  "accepted_pairs ts = map (\<lambda>(dt, q, p). (dt, q)) ts"

definition accepted_total :: "(string \<times> int \<times> string option) list \<Rightarrow> int" where
  "accepted_total ts = sum_list (map (\<lambda>(dt, q, p). q) ts)"

text \<open>
  The reference algorithm as the specification words it, on pairs of a date and an integer
  quantity: the residual starts at \<open>Q\<close>; the pair at index 0 is raised to 1 when below;
  every quantity is lowered to the residual; a pair is accepted when the clamped quantity
  is positive; nothing is accepted once the residual is 0.
\<close>

fun apportion_spec_loop :: "nat \<Rightarrow> int \<Rightarrow> (string \<times> int) list \<Rightarrow> (string \<times> int) list" where
  "apportion_spec_loop i remaining [] = []"
| "apportion_spec_loop i remaining ((d, raw_qty) # ps) =
     (if remaining = 0 then []
      else if min (if i = 0 \<and> raw_qty < 1 then 1 else raw_qty) remaining > 0 then
        (d, min (if i = 0 \<and> raw_qty < 1 then 1 else raw_qty) remaining)
        # apportion_spec_loop (Suc i)
            (remaining - min (if i = 0 \<and> raw_qty < 1 then 1 else raw_qty) remaining) ps
      else apportion_spec_loop (Suc i) remaining ps)"

definition apportion_spec :: "int \<Rightarrow> (string \<times> int) list \<Rightarrow> (string \<times> int) list" where
  "apportion_spec Q pairs = apportion_spec_loop 0 Q pairs"

text \<open>The submitted pairs as the loop reads them: date trimmed, quantity parsed.\<close>

definition read_pairs :: "string list \<Rightarrow> string list \<Rightarrow> (string \<times> int) list" where
  "read_pairs dates_list qtys_list =
     map (\<lambda>(dt_raw, q_raw). (py_strip dt_raw, parse_qty q_raw)) (zip dates_list qtys_list)"

definition dated :: "(string \<times> int) list \<Rightarrow> (string \<times> int) list" where
  "dated ps = filter (\<lambda>(d, q). d \<noteq> []) ps"

text \<open>
  The pair at index 0 of the zipped lists has a blank date: the loop skips it, and the
  minimum of 1 is then applied to no pair at all.
\<close>

definition first_date_blank :: "string list \<Rightarrow> string list \<Rightarrow> bool" where
  "first_date_blank dates_list qtys_list =
     (case zip dates_list qtys_list of [] \<Rightarrow> False | (dt_raw, q_raw) # rest \<Rightarrow> py_strip dt_raw = [])"

section \<open>Order codes: \<^verbatim>\<open>generate_order_code\<close>\<close>

text \<open>\<^verbatim>\<open>s.startswith(p)\<close>.\<close>

fun startswith :: "string \<Rightarrow> string \<Rightarrow> bool" where
  "startswith s [] = True"
| "startswith [] (p # ps) = False"
| "startswith (c # cs) (p # ps) = (c = p \<and> startswith cs ps)"

text \<open>
  \<^verbatim>\<open>code.split('/', 1)[1]\<close>: the text after the first slash; \<open>None\<close> stands for the
  \<^verbatim>\<open>IndexError\<close> of a string without a slash.
\<close>

fun after_first_slash :: "string \<Rightarrow> string option" where
  "after_first_slash [] = None"
| "after_first_slash (c # cs) = (if c = CHR ''/'' then Some cs else after_first_slash cs)"

text \<open>
  Decimal digits of an integer \<open>n \<ge> 0\<close>, as \<^verbatim>\<open>str\<close> and the \<^verbatim>\<open>d\<close> format print them, and
  \<^verbatim>\<open>str(n)\<close> for any integer.
\<close>

definition digit_char :: "nat \<Rightarrow> char" where
  "digit_char d = char_of (48 + d)"

function dec_digits :: "int \<Rightarrow> string" where
  "dec_digits n =
     (if n < 10 then [digit_char (nat n)]
      else dec_digits (n div 10) @ [digit_char (nat (n mod 10))])"
  by pat_completeness auto
termination
  by (relation "measure nat") auto

declare dec_digits.simps [simp del]

definition py_str :: "int \<Rightarrow> string" where
  "py_str n = (if n < 0 then CHR ''-'' # dec_digits (- n) else dec_digits n)"

definition zfill :: "nat \<Rightarrow> string \<Rightarrow> string" where
  "zfill w s = replicate (w - length s) (CHR ''0'') @ s"

text \<open>The format \<^verbatim>\<open>{n:04d}\<close>: sign first, zero padding to a width of 4 that counts the sign.\<close>

definition format_04d :: "int \<Rightarrow> string" where
  "format_04d n =
     (if n < 0 then CHR ''-'' # zfill 3 (dec_digits (- n)) else zfill 4 (dec_digits n))"

text \<open>A row of the history table \<^verbatim>\<open>riordini_effettuati\<close>; \<open>None\<close> is SQL \<^verbatim>\<open>NULL\<close>.\<close>

record storico_row =
  se_data :: string
  se_tipo_evento :: string
  se_materiale :: "string option"
  se_tipo :: "string option"
  se_spessore :: "string option"
  se_dimensione_x :: "string option"
  se_dimensione_y :: "string option"
  se_quantita :: int
  se_numero_ordine :: "string option"
  se_fornitore :: "string option"
  se_produttore :: "string option"

text \<open>
  \<^verbatim>\<open>SELECT numero_ordine FROM riordini_effettuati WHERE numero_ordine IS NOT NULL AND
  numero_ordine != ''\<close>.
\<close>

definition order_codes :: "storico_row list \<Rightarrow> string list" where
  "order_codes h =
     List.map_filter
       (\<lambda>r. case se_numero_ordine r of None \<Rightarrow> None | Some c \<Rightarrow> if c = [] then None else Some c) h"

text \<open>The prefix \<^verbatim>\<open>f"TM{year}/"\<close>, for the year of \<^verbatim>\<open>datetime.now()\<close>.\<close>

definition year_prefix :: "int \<Rightarrow> string" where
  "year_prefix year = ''TM'' @ py_str year @ ''/''"

text \<open>
  The sequence number a code contributes: the code is trimmed, must start with the prefix
  of the year, and the text after its first slash must read as an integer; a code that
  fails any of these is passed over.
\<close>

definition prog_part_of :: "string \<Rightarrow> string \<Rightarrow> int option" where
  "prog_part_of pre code =
     (if code = [] then None
      else if startswith (py_strip code) pre then
        (case after_first_slash (py_strip code) of
           None \<Rightarrow> None
         | Some part \<Rightarrow> py_int part)
      else None)"

fun max_prog_loop :: "string \<Rightarrow> int \<Rightarrow> string list \<Rightarrow> int" where
  "max_prog_loop pre max_prog [] = max_prog"
| "max_prog_loop pre max_prog (code # rows) =
     (case prog_part_of pre code of
        None \<Rightarrow> max_prog_loop pre max_prog rows
      | Some prog_part \<Rightarrow>
          if prog_part > max_prog then max_prog_loop pre prog_part rows
          else max_prog_loop pre max_prog rows)"

definition generate_order_code :: "int \<Rightarrow> storico_row list \<Rightarrow> string" where
  "generate_order_code year h =
     year_prefix year @ format_04d (max_prog_loop (year_prefix year) 0 (order_codes h) + 1)"

text \<open>
  The sequence numbers of a year as the specification words them: the numbers of the
  existing codes that match \<^verbatim>\<open>TM{year}/*\<close>.
\<close>

definition year_sequence_numbers :: "int \<Rightarrow> storico_row list \<Rightarrow> int list" where
  "year_sequence_numbers year h = List.map_filter (prog_part_of (year_prefix year)) (order_codes h)"

text \<open>A history row whose code is in the format of the year.\<close>

definition code_of_year :: "int \<Rightarrow> storico_row \<Rightarrow> bool" where
  "code_of_year year r =
     (case se_numero_ordine r of
        None \<Rightarrow> False
      | Some c \<Rightarrow> startswith (py_strip c) (year_prefix year))"

section \<open>The tables of the reorder workflow\<close>

text \<open>
  The SQLite tables the handlers read and write, with \<open>None\<close> for SQL \<^verbatim>\<open>NULL\<close>.  A table
  with a primary key is a map from the key to the other columns; the history table, which
  is only appended to and scanned, is a list.  The \<^verbatim>\<open>except sqlite3.Error\<close> branches of the
  handlers are not modelled: every statement runs.
\<close>

text \<open>\<^verbatim>\<open>riordini_rdo\<close>: a draft request.\<close>

record rdo_row =
  rdo_data :: "string option"
  rdo_materiale :: "string option"
  rdo_tipo :: "string option"
  rdo_spessore :: "string option"
  rdo_dimensione_x :: "string option"
  rdo_dimensione_y :: "string option"
  rdo_quantita :: "int option"
  rdo_fornitori :: "string option"
  rdo_produttori :: "string option"
  rdo_fornitore_scelto :: "string option"
  rdo_produttore_scelto :: "string option"
  rdo_data_prevista :: "string option"

text \<open>\<^verbatim>\<open>ordine_fornitori\<close> and \<^verbatim>\<open>ordine_produttori\<close>, keyed by \<^verbatim>\<open>numero_ordine\<close>.\<close>

record forn_row =
  fornitori :: "string option"
  fornitore_scelto :: "string option"
  forn_locked :: "int option"

record prod_row =
  produttori :: "string option"
  produttore_scelto :: "string option"
  prod_locked :: "int option"

text \<open>\<^verbatim>\<open>riordini_accettazione\<close>, keyed by \<^verbatim>\<open>id\<close>: one expected delivery.\<close>

record acc_row =
  acc_data :: "string option"
  acc_materiale :: "string option"
  acc_tipo :: "string option"
  acc_spessore :: "string option"
  acc_dimensione_x :: "string option"
  acc_dimensione_y :: "string option"
  quantita_totale :: "int option"
  quantita_ricevuta :: "int option"
  acc_numero_ordine :: "string option"
  acc_fornitore :: "string option"
  acc_produttore :: "string option"
  acc_data_prevista :: "string option"
  ubicazione_lettera :: "string option"
  ubicazione_numero :: "int option"

record db =
  riordini_accettazione :: "int \<rightharpoonup> acc_row"
  riordini_effettuati :: "storico_row list"
  ordine_fornitori :: "string \<rightharpoonup> forn_row"
  ordine_produttori :: "string \<rightharpoonup> prod_row"

text \<open>Python truthiness of a nullable text and of a nullable integer column.\<close>

definition str_or_empty :: "string option \<Rightarrow> string" where
  "str_or_empty v = (case v of None \<Rightarrow> [] | Some s \<Rightarrow> s)"

definition or_none :: "string option \<Rightarrow> string option" where
  "or_none v = (case v of None \<Rightarrow> None | Some s \<Rightarrow> if s = [] then None else Some s)"

definition truthy_int :: "int option \<Rightarrow> bool" where
  "truthy_int v = (case v of None \<Rightarrow> False | Some n \<Rightarrow> n \<noteq> 0)"

definition int_or_zero :: "int option \<Rightarrow> int" where
  "int_or_zero v = (case v of None \<Rightarrow> 0 | Some n \<Rightarrow> n)"

text \<open>
  The quantities of a row of \<^verbatim>\<open>riordini_accettazione\<close> as the handlers read them:
  \<^verbatim>\<open>int(row['quantita_totale'] or 0)\<close> and \<^verbatim>\<open>int(row['quantita_ricevuta'] or 0)\<close>.
\<close>

definition q_totale_of :: "acc_row \<Rightarrow> int" where
  "q_totale_of row = int_or_zero (quantita_totale row)"

definition q_ricevuta_of :: "acc_row \<Rightarrow> int" where
  "q_ricevuta_of row = int_or_zero (quantita_ricevuta row)"

section \<open>Order placement in \<^verbatim>\<open>confirm_rdo\<close>\<close>

text \<open>\<^verbatim>\<open>s.split(sep)\<close> and \<^verbatim>\<open>sep.join(xs)\<close>.\<close>

fun py_split :: "char \<Rightarrow> string \<Rightarrow> string list" where
  "py_split sep [] = [[]]"
| "py_split sep (c # cs) =
     (if c = sep then [] # py_split sep cs
      else (case py_split sep cs of [] \<Rightarrow> [[c]] | x # xs \<Rightarrow> (c # x) # xs))"

fun py_join :: "char \<Rightarrow> string list \<Rightarrow> string" where
  "py_join sep [] = []"
| "py_join sep [x] = x"
| "py_join sep (x # y # ys) = x @ sep # py_join sep (y # ys)"

text \<open>\<^verbatim>\<open>[f.strip() for f in str(v or '').split(',') if f.strip()]\<close>.\<close>

definition name_list :: "string option \<Rightarrow> string list" where
  "name_list v = filter (\<lambda>f. f \<noteq> []) (map py_strip (py_split (CHR '','') (str_or_empty v)))"

text \<open>\<^verbatim>\<open>(v or '').strip() or (names[0] if names else None)\<close>.\<close>

definition scelto_of :: "string option \<Rightarrow> string list \<Rightarrow> string option" where
  "scelto_of v names =
     (if py_strip (str_or_empty v) \<noteq> [] then Some (py_strip (str_or_empty v))
      else (case names of [] \<Rightarrow> None | f # rest \<Rightarrow> Some f))"

text \<open>\<^verbatim>\<open>','.join(names) if names else None\<close>.\<close>

definition joined :: "string list \<Rightarrow> string option" where
  "joined names = (if names = [] then None else Some (py_join (CHR '','') names))"

text \<open>\<^verbatim>\<open>INSERT OR IGNORE\<close> on a keyed table.\<close>

definition insert_or_ignore :: "('k \<rightharpoonup> 'r) \<Rightarrow> 'k \<Rightarrow> 'r \<Rightarrow> ('k \<rightharpoonup> 'r)" where
  "insert_or_ignore t k r = (case t k of None \<Rightarrow> t(k \<mapsto> r) | Some old \<Rightarrow> t)"

text \<open>\<^verbatim>\<open>UPDATE ... WHERE key = k\<close> on a keyed table.\<close>

definition update_where :: "('k \<rightharpoonup> 'r) \<Rightarrow> 'k \<Rightarrow> ('r \<Rightarrow> 'r) \<Rightarrow> ('k \<rightharpoonup> 'r)" where
  "update_where t k f = (case t k of None \<Rightarrow> t | Some old \<Rightarrow> t(k \<mapsto> f old))"

text \<open>
  Lines 7790 to 7874 of \<^verbatim>\<open>confirm_rdo\<close>, on the RDO row as reloaded: the order code is
  generated from the history table, the supplier and the producer of the order are
  recorded with \<^verbatim>\<open>locked = 1\<close>, and one \<^verbatim>\<open>ordine\<close> event with the full quantity is
  appended to the history.  \<open>year\<close> and \<open>now_str\<close> are the clock readings.  The
  timestamp code of the \<^verbatim>\<open>except\<close> branch is left out: \<open>generate_order_code\<close> always
  returns.
\<close>

definition confirm_rdo_order :: "int \<Rightarrow> string \<Rightarrow> rdo_row \<Rightarrow> db \<Rightarrow> string \<times> db" where
  "confirm_rdo_order year now_str rdo s =
     (let forn_list = name_list (rdo_fornitori rdo);
          prod_list = name_list (rdo_produttori rdo);
          forn_scelto = scelto_of (rdo_fornitore_scelto rdo) forn_list;
          prod_scelto = scelto_of (rdo_produttore_scelto rdo) prod_list;
          quantita_tot = int_or_zero (rdo_quantita rdo);
          numero_ordine = generate_order_code year (riordini_effettuati s);
          forn_new = \<lparr>fornitori = joined forn_list, fornitore_scelto = or_none forn_scelto,
                       forn_locked = Some 1\<rparr>;
          prod_new = \<lparr>produttori = joined prod_list, produttore_scelto = or_none prod_scelto,
                       prod_locked = Some 1\<rparr>;
          event = \<lparr>se_data = now_str, se_tipo_evento = ''ordine'',
                    se_materiale = rdo_materiale rdo, se_tipo = rdo_tipo rdo,
                    se_spessore = rdo_spessore rdo, se_dimensione_x = rdo_dimensione_x rdo,
                    se_dimensione_y = rdo_dimensione_y rdo, se_quantita = quantita_tot,
                    se_numero_ordine = Some numero_ordine, se_fornitore = forn_scelto,
                    se_produttore = prod_scelto\<rparr>
      in (numero_ordine,
          s\<lparr>ordine_fornitori :=
               update_where (insert_or_ignore (ordine_fornitori s) numero_ordine forn_new)
                 numero_ordine (\<lambda>old. forn_new),
            ordine_produttori :=
               update_where (insert_or_ignore (ordine_produttori s) numero_ordine prod_new)
                 numero_ordine (\<lambda>old. prod_new),
            riordini_effettuati := riordini_effettuati s @ [event]\<rparr>))"

text \<open>Confirming a list of requests one after the other, each with its timestamp.\<close>

fun confirm_orders :: "int \<Rightarrow> (string \<times> rdo_row) list \<Rightarrow> db \<Rightarrow> string list \<times> db" where
  "confirm_orders year [] s = ([], s)"
| "confirm_orders year ((now_str, rdo) # rest) s =
     (case confirm_rdo_order year now_str rdo s of
        (code, s') \<Rightarrow>
          (case confirm_orders year rest s' of (codes, s'') \<Rightarrow> (code # codes, s'')))"

section \<open>The whole of \<^verbatim>\<open>confirm_rdo\<close>: validation, update of the request, deliveries\<close>









text \<open>
  \<^verbatim>\<open>INSERT\<close> of a list of rows into a table whose key is \<^verbatim>\<open>AUTOINCREMENT\<close>: the rows get
  consecutive ids from the id that SQLite assigns to the first one.
\<close>

fun insert_rows :: "(int \<rightharpoonup> 'r) \<Rightarrow> int \<Rightarrow> 'r list \<Rightarrow> (int \<rightharpoonup> 'r)" where
  "insert_rows t n [] = t"
| "insert_rows t n (r # rs) = insert_rows (t(n \<mapsto> r)) (n + 1) rs"



section \<open>Example data\<close>

text \<open>
  The article of the specification's scenarios, a draft request for it, and a history that
  holds one code in the old format and one code of the year before.
\<close>

definition marble_rdo :: rdo_row where
  "marble_rdo =
     \<lparr>rdo_data = Some ''2025-03-01 09:00:00'', rdo_materiale = Some ''Marble'',
      rdo_tipo = Some ''Polished'', rdo_spessore = Some ''20mm'',
      rdo_dimensione_x = Some ''300'', rdo_dimensione_y = Some ''150'',
      rdo_quantita = Some 20, rdo_fornitori = Some ''Stone Srl, Cave Spa'',
      rdo_produttori = Some ''Acme'', rdo_fornitore_scelto = Some ''Cave Spa'',
      rdo_produttore_scelto = None, rdo_data_prevista = Some ''2025-04-01''\<rparr>"

definition order_event :: "string \<Rightarrow> storico_row" where
  "order_event code =
     \<lparr>se_data = ''2024-11-05 10:00:00'', se_tipo_evento = ''ordine'',
      se_materiale = Some ''Marble'', se_tipo = Some ''Polished'', se_spessore = Some ''20mm'',
      se_dimensione_x = Some ''300'', se_dimensione_y = Some ''150'', se_quantita = 12,
      se_numero_ordine = Some code, se_fornitore = Some ''Stone Srl'',
      se_produttore = Some ''Acme''\<rparr>"

definition old_db :: db where
  "old_db =
     \<lparr>riordini_accettazione = Map.empty,
      riordini_effettuati = [order_event ''ORD-000123'', order_event ''TM2024/0100''],
      ordine_fornitori = Map.empty,
      ordine_produttori = Map.empty\<rparr>"



section \<open>Receipts: \<^verbatim>\<open>accettazione_update\<close> and \<^verbatim>\<open>add\<close>\<close>

text \<open>
  \<^verbatim>\<open>x in (None, '', 'None')\<close> for an optional form field.
\<close>

definition unset_field :: "string option \<Rightarrow> bool" where
  "unset_field v = (case v of None \<Rightarrow> True | Some x \<Rightarrow> x = [] \<or> x = ''None'')"

text \<open>
  The quantity of the request (lines 6909 to 6915): the field \<^verbatim>\<open>quantita\<close>, else the field
  \<^verbatim>\<open>quantita_parziale\<close>, else 0; a text that is not an integer counts as 0.
\<close>

definition q_parziale_of :: "string option \<Rightarrow> string option \<Rightarrow> int" where
  "q_parziale_of quantita quantita_parziale =
     (let qty_raw =
            (if unset_field quantita
             then (if str_or_empty quantita_parziale = [] then ''0''
                   else str_or_empty quantita_parziale)
             else str_or_empty quantita)
      in case py_int (if qty_raw = [] then ''0'' else qty_raw) of None \<Rightarrow> 0 | Some n \<Rightarrow> n)"

text \<open>
  The test of line 6942 on the row of \<^verbatim>\<open>ordine_fornitori\<close> for an order code: the row
  exists, its \<^verbatim>\<open>locked\<close> flag is set and its chosen supplier is not blank.
\<close>

definition supplier_locked :: "db \<Rightarrow> string \<Rightarrow> bool" where
  "supplier_locked s numero_ord =
     (case ordine_fornitori s numero_ord of
        None \<Rightarrow> False
      | Some frn_row \<Rightarrow>
          truthy_int (forn_locked frn_row)
          \<and> py_strip (str_or_empty (fornitore_scelto frn_row)) \<noteq> [])"

text \<open>
  The outcomes of \<^verbatim>\<open>accettazione_update\<close>: the four refusals, each flashed and redirected
  to the reorder page, and the redirect to \<^verbatim>\<open>/add\<close> that carries the id of the row and
  the quantity (the other parameters of the redirect only prefill the form of \<^verbatim>\<open>/add\<close>).
\<close>

datatype acc_outcome =
    Not_found
  | Supplier_not_locked
  | Qty_not_positive
  | Qty_over_residual
  | Redirect_add int int

text \<open>
  \<^verbatim>\<open>accettazione_update\<close>, lines 6908 to 6965.  The supplier test is made only when the
  order code of the row is neither \<^verbatim>\<open>NULL\<close> nor empty.  The handler writes nothing: the
  tables come back as they were.
\<close>

definition accettazione_update ::
  "db \<Rightarrow> int \<Rightarrow> string option \<Rightarrow> string option \<Rightarrow> acc_outcome \<times> db" where
  "accettazione_update s acc_id quantita quantita_parziale =
     (let q_parziale = q_parziale_of quantita quantita_parziale
      in case riordini_accettazione s acc_id of
           None \<Rightarrow> (Not_found, s)
         | Some row \<Rightarrow>
             if str_or_empty (acc_numero_ordine row) \<noteq> []
                \<and> \<not> supplier_locked s (str_or_empty (acc_numero_ordine row))
             then (Supplier_not_locked, s)
             else
               let current_total = int_or_zero (quantita_totale row);
                   current_received = int_or_zero (quantita_ricevuta row);
                   residuo = (if current_total - current_received < 0 then 0
                              else current_total - current_received)
               in if q_parziale \<le> 0 then (Qty_not_positive, s)
                  else if q_parziale > residuo then (Qty_over_residual, s)
                  else (Redirect_add acc_id q_parziale, s))"

text \<open>
  A row of the inventory table \<^verbatim>\<open>materiali\<close>, with the columns that the checks of
  \<^verbatim>\<open>/add\<close> read.
\<close>

record mat_row =
  m_id :: int
  m_materiale :: "string option"
  m_spessore :: "string option"
  m_is_pallet :: "int option"
  m_ubicazione_lettera :: "string option"
  m_ubicazione_numero :: "int option"

text \<open>
  A \<^verbatim>\<open>POST\<close> to \<^verbatim>\<open>/add\<close>: the fields of its form (a field read with the default \<^verbatim>\<open>''\<close> is
  the empty text when absent; \<^verbatim>\<open>quantita\<close>, \<^verbatim>\<open>acc_id\<close> and \<^verbatim>\<open>acc_q_totale_new\<close> are
  \<open>None\<close> when absent), and what the request finds outside the tables of the reorder
  workflow: the rows of \<^verbatim>\<open>materiali\<close> in the order of their ids, which the handler reads
  in its checks, and the id that SQLite assigns to a row inserted into
  \<^verbatim>\<open>riordini_accettazione\<close>.  The slabs and pallets that the handler inserts into
  \<^verbatim>\<open>materiali\<close>, the vocabulary tables and the attached documents are not modelled.
\<close>

record add_request =
  f_materiale :: string
  f_tipo :: string
  f_dimensione_x :: string
  f_dimensione_y :: string
  f_spessore :: string
  f_quantita :: "string option"
  f_ubicazione_lettera :: string
  f_ubicazione_numero :: string
  f_fornitore :: string
  f_produttore :: string
  f_parent_id :: string
  f_nuovo_ordine :: string
  f_data_arrivo :: string
  f_confirm_override :: string
  f_acc_id :: "string option"
  f_acc_q_totale_new :: "string option"
  r_materiali :: "mat_row list"
  r_new_id :: int

text \<open>\<^verbatim>\<open>COALESCE(old, new)\<close>.\<close>

definition coalesce :: "'a option \<Rightarrow> 'a \<Rightarrow> 'a option" where
  "coalesce old new = (case old of None \<Rightarrow> Some new | Some v \<Rightarrow> Some v)"

text \<open>\<^verbatim>\<open>int(text)\<close> with a default on \<^verbatim>\<open>ValueError\<close>.\<close>

definition int_or_default :: "string \<Rightarrow> int \<Rightarrow> int" where
  "int_or_default text d = (case py_int text of None \<Rightarrow> d | Some n \<Rightarrow> n)"

text \<open>
  Lines 3693 to 3729: the values that the handler reads from the form.  \<^verbatim>\<open>ubicazione_lettera\<close>
  is not trimmed; \<^verbatim>\<open>ubicazione_numero\<close> is 0 when it is not an integer.
\<close>

definition ubicazione_numero_of :: "add_request \<Rightarrow> int" where
  "ubicazione_numero_of g = int_or_default (f_ubicazione_numero g) 0"

definition parent_id_of :: "add_request \<Rightarrow> int option" where
  "parent_id_of g = (if f_parent_id g = [] then None else py_int (f_parent_id g))"

text \<open>
  The test of lines 3731 to 3736: a mandatory field is missing.  The quantity is not one of
  them.
\<close>

definition missing_fields :: "add_request \<Rightarrow> bool" where
  "missing_fields g =
     (py_strip (f_materiale g) = [] \<or> py_strip (f_dimensione_x g) = []
      \<or> py_strip (f_dimensione_y g) = [] \<or> py_strip (f_spessore g) = []
      \<or> f_ubicazione_lettera g = [] \<or> ubicazione_numero_of g = 0
      \<or> py_strip (f_tipo g) = [] \<or> py_strip (f_fornitore g) = []
      \<or> py_strip (f_produttore g) = [])"

text \<open>
  The row of a manual order (lines 3796 to 3812): the quantity of the form, whatever
  integer it is, is the total; nothing is received; the order code is \<^verbatim>\<open>NULL\<close>.
\<close>

definition nuovo_ordine_row :: "string \<Rightarrow> add_request \<Rightarrow> acc_row" where
  "nuovo_ordine_row now_str g =
     \<lparr>acc_data = Some now_str, acc_materiale = Some (py_strip (f_materiale g)),
      acc_tipo = or_none (Some (py_strip (f_tipo g))),
      acc_spessore = Some (py_strip (f_spessore g)),
      acc_dimensione_x = Some (py_strip (f_dimensione_x g)),
      acc_dimensione_y = Some (py_strip (f_dimensione_y g)),
      quantita_totale = Some (int_or_default (case f_quantita g of None \<Rightarrow> ''1'' | Some q \<Rightarrow> q) 1),
      quantita_ricevuta = Some 0,
      acc_numero_ordine = None,
      acc_fornitore = or_none (Some (py_strip (f_fornitore g))),
      acc_produttore = or_none (Some (py_strip (f_produttore g))),
      acc_data_prevista = Some (py_strip (f_data_arrivo g)),
      ubicazione_lettera = or_none (Some (f_ubicazione_lettera g)),
      ubicazione_numero = (if ubicazione_numero_of g = 0 then None
                           else Some (ubicazione_numero_of g))\<rparr>"

text \<open>
  The check of lines 3836 to 3858, made when the form names no pallet: the first pallet at
  the location of the form holds another material and the form does not carry
  \<^verbatim>\<open>confirm_override\<close>.
\<close>

definition location_taken :: "add_request \<Rightarrow> bool" where
  "location_taken g =
     (case find (\<lambda>r. m_is_pallet r = Some 1
                     \<and> m_ubicazione_lettera r = Some (f_ubicazione_lettera g)
                     \<and> m_ubicazione_numero r = Some (ubicazione_numero_of g))
                (r_materiali g) of
        None \<Rightarrow> False
      | Some r \<Rightarrow> m_materiale r \<noteq> Some (py_strip (f_materiale g)) \<and> f_confirm_override g = [])"

text \<open>
  The checks of lines 3862 to 3874 on the pallet that the form names: it must exist and be
  a pallet, and its thickness, when it has one, must be that of the form.
\<close>

definition invalid_pallet :: "add_request \<Rightarrow> int \<Rightarrow> bool" where
  "invalid_pallet g parent_id =
     (case find (\<lambda>r. m_id r = parent_id) (r_materiali g) of
        None \<Rightarrow> True
      | Some par_row \<Rightarrow> int_or_zero (m_is_pallet par_row) \<noteq> 1)"

definition other_thickness :: "add_request \<Rightarrow> int \<Rightarrow> bool" where
  "other_thickness g parent_id =
     (case find (\<lambda>r. m_id r = parent_id) (r_materiali g) of
        None \<Rightarrow> False
      | Some par_row \<Rightarrow>
          py_strip (str_or_empty (m_spessore par_row)) \<noteq> []
          \<and> py_strip (str_or_empty (m_spessore par_row)) \<noteq> py_strip (f_spessore g))"

text \<open>
  Lines 4283 to 4296: the new total of the form counts only when it is a positive integer,
  and the quantity of the form is 0 when it is absent or not an integer.
\<close>

definition new_total_val_of :: "add_request \<Rightarrow> int option" where
  "new_total_val_of g =
     (if unset_field (f_acc_q_totale_new g) then None
      else (case py_int (str_or_empty (f_acc_q_totale_new g)) of
              None \<Rightarrow> None
            | Some nt \<Rightarrow> if nt > 0 then Some nt else None))"

definition accepted_qty_of :: "add_request \<Rightarrow> int" where
  "accepted_qty_of g = int_or_default (case f_quantita g of None \<Rightarrow> ''0'' | Some q \<Rightarrow> q) 0"

text \<open>
  The acceptance part of \<^verbatim>\<open>add\<close> up to its first commit, lines 4276 to 4380.  It acts
  when the form carries \<^verbatim>\<open>acc_id\<close> and the row of that id exists.  A positive new total
  replaces the total.  A positive quantity is added to the received quantity, the supplier,
  the producer and the first location of the row are recorded, and one
  \<^verbatim>\<open>accettazione\<close> event with that quantity is appended to the history.  Neither the lock
  of the supplier nor the residual is looked at.  The result carries the id of the row and
  the local variables \<^verbatim>\<open>q_totale\<close> and \<^verbatim>\<open>q_ricevuta\<close>, for the test that follows the
  commit.
\<close>

definition add_accettazione_commit ::
  "string \<Rightarrow> add_request \<Rightarrow> db \<Rightarrow> (int \<times> int \<times> int) option \<times> db" where
  "add_accettazione_commit now_str g s =
     (if str_or_empty (f_acc_id g) = [] then (None, s)
      else
        let new_total_val = new_total_val_of g;
            accepted_qty = accepted_qty_of g;
            fornitore = py_strip (f_fornitore g);
            produttore = py_strip (f_produttore g)
        in case py_int (str_or_empty (f_acc_id g)) of
             None \<Rightarrow> (None, s)
           | Some acc_id_int \<Rightarrow>
               (case riordini_accettazione s acc_id_int of
                  None \<Rightarrow> (None, s)
                | Some row \<Rightarrow>
                    let q_totale = (case new_total_val of
                                      None \<Rightarrow> int_or_zero (quantita_totale row)
                                    | Some nt \<Rightarrow> nt);
                        row1 = (case new_total_val of
                                  None \<Rightarrow> row
                                | Some nt \<Rightarrow> row\<lparr>quantita_totale := Some nt\<rparr>);
                        q_ricevuta = (if accepted_qty > 0
                                      then int_or_zero (quantita_ricevuta row) + accepted_qty
                                      else int_or_zero (quantita_ricevuta row));
                        new_fornitore_val = (if fornitore \<noteq> [] then Some fornitore
                                             else or_none (acc_fornitore row));
                        new_produttore_val = (if produttore \<noteq> [] then Some produttore
                                              else or_none (acc_produttore row));
                        row2 = (if accepted_qty > 0
                                then row1\<lparr>quantita_ricevuta := Some q_ricevuta,
                                          acc_fornitore := new_fornitore_val,
                                          acc_produttore := new_produttore_val,
                                          ubicazione_lettera :=
                                            coalesce (ubicazione_lettera row1) (f_ubicazione_lettera g),
                                          ubicazione_numero :=
                                            coalesce (ubicazione_numero row1) (ubicazione_numero_of g)\<rparr>
                                else row1);
                        storico = (if accepted_qty > 0
                                   then riordini_effettuati s @
                                        [\<lparr>se_data = now_str, se_tipo_evento = ''accettazione'',
                                          se_materiale = acc_materiale row, se_tipo = acc_tipo row,
                                          se_spessore = acc_spessore row,
                                          se_dimensione_x = acc_dimensione_x row,
                                          se_dimensione_y = acc_dimensione_y row,
                                          se_quantita = accepted_qty,
                                          se_numero_ordine = acc_numero_ordine row,
                                          se_fornitore = new_fornitore_val,
                                          se_produttore = new_produttore_val\<rparr>]
                                   else riordini_effettuati s)
                    in (Some (acc_id_int, q_totale, q_ricevuta),
                        s\<lparr>riordini_accettazione := (riordini_accettazione s)(acc_id_int \<mapsto> row2),
                          riordini_effettuati := storico\<rparr>)))"

text \<open>
  The whole acceptance part, lines 4276 to 4392: after the commit, the row is deleted when
  the total is positive and the received quantity has reached or passed it.
\<close>

definition add_accettazione :: "string \<Rightarrow> add_request \<Rightarrow> db \<Rightarrow> db" where
  "add_accettazione now_str g s =
     (case add_accettazione_commit now_str g s of
        (None, s1) \<Rightarrow> s1
      | (Some (acc_id_int, q_totale, q_ricevuta), s1) \<Rightarrow>
          if q_totale > 0 \<and> q_ricevuta \<ge> q_totale
          then s1\<lparr>riordini_accettazione := (riordini_accettazione s1)(acc_id_int := None)\<rparr>
          else s1)"

text \<open>
  The answers of a \<^verbatim>\<open>POST\<close> to \<^verbatim>\<open>/add\<close>: the refusals that return before anything is
  written, the creation of a manual order, and the completed insertion.
\<close>

datatype add_outcome =
    Add_missing_fields
  | Add_missing_date
  | Add_new_order
  | Add_confirm_location
  | Add_invalid_pallet
  | Add_thickness_rule
  | Add_done

text \<open>
  The handler of \<^verbatim>\<open>POST /add\<close>, lines 3693 to 4392, on the tables of the reorder
  workflow.  A form with a missing mandatory field is refused.  With \<^verbatim>\<open>nuovo_ordine\<close> a
  manual order is inserted and the handler returns.  Otherwise the checks on the location
  and on the named pallet may return; when they pass, the slabs are inserted into the
  inventory and the acceptance part runs.
\<close>

definition add :: "string \<Rightarrow> add_request \<Rightarrow> db \<Rightarrow> add_outcome \<times> db" where
  "add now_str g s =
     (if missing_fields g then (Add_missing_fields, s)
      else if f_nuovo_ordine g \<noteq> [] then
        (if py_strip (f_data_arrivo g) = [] then (Add_missing_date, s)
         else (Add_new_order,
               s\<lparr>riordini_accettazione :=
                    insert_rows (riordini_accettazione s) (r_new_id g)
                      [nuovo_ordine_row now_str g]\<rparr>))
      else if \<not> truthy_int (parent_id_of g) \<and> location_taken g then (Add_confirm_location, s)
      else if truthy_int (parent_id_of g) \<and> invalid_pallet g (int_or_zero (parent_id_of g))
        then (Add_invalid_pallet, s)
      else if truthy_int (parent_id_of g) \<and> other_thickness g (int_or_zero (parent_id_of g))
        then (Add_thickness_rule, s)
      else (Add_done, add_accettazione now_str g s))"

text \<open>
  A receipt as the user performs it, in two requests: the request to
  \<^verbatim>\<open>accettazione_update\<close> and, when it answers with the redirect to \<^verbatim>\<open>/add\<close>, the request
  \<open>g\<close> that the user then posts to \<^verbatim>\<open>/add\<close>.  Nothing ties \<open>g\<close> to the redirect: the id and
  the quantity that the redirect prefills can be changed before the form is posted, so \<open>g\<close>
  is any request.  After a refusal the user is sent back to the reorder page and nothing is
  posted to \<^verbatim>\<open>/add\<close>.
\<close>

definition receive ::
  "string \<Rightarrow> int \<Rightarrow> string option \<Rightarrow> string option \<Rightarrow> add_request \<Rightarrow> db \<Rightarrow> acc_outcome \<times> db" where
  "receive now_str acc_id quantita quantita_parziale g s =
     (case accettazione_update s acc_id quantita quantita_parziale of
        (Redirect_add i q, s') \<Rightarrow> (Redirect_add i q, snd (add now_str g s'))
      | (refusal, s') \<Rightarrow> (refusal, s'))"

text \<open>
  An expected delivery of 8 for the order TM2025/0001, whose supplier is locked; the same
  delivery with the supplier of the order not locked; and a manual order of 5, entered
  through \<^verbatim>\<open>/add\<close> with no order code, with no supplier recorded for any order.
\<close>

definition marble_acc :: acc_row where
  "marble_acc =
     \<lparr>acc_data = Some ''2025-03-02 08:30:00'', acc_materiale = Some ''Marble'',
      acc_tipo = Some ''Polished'', acc_spessore = Some ''20mm'',
      acc_dimensione_x = Some ''300'', acc_dimensione_y = Some ''150'',
      quantita_totale = Some 8, quantita_ricevuta = Some 0,
      acc_numero_ordine = Some ''TM2025/0001'', acc_fornitore = Some ''Cave Spa'',
      acc_produttore = Some ''Acme'', acc_data_prevista = Some ''2025-04-01'',
      ubicazione_lettera = None, ubicazione_numero = None\<rparr>"

definition open_db :: db where
  "open_db =
     \<lparr>riordini_accettazione = [7 \<mapsto> marble_acc],
      riordini_effettuati = [order_event ''TM2025/0001''],
      ordine_fornitori =
        [''TM2025/0001'' \<mapsto>
           \<lparr>fornitori = Some ''Stone Srl,Cave Spa'', fornitore_scelto = Some ''Cave Spa'',
            forn_locked = Some 1\<rparr>],
      ordine_produttori = Map.empty\<rparr>"

definition unlocked_db :: db where
  "unlocked_db =
     \<lparr>riordini_accettazione = [7 \<mapsto> marble_acc],
      riordini_effettuati = [order_event ''TM2025/0001''],
      ordine_fornitori =
        [''TM2025/0001'' \<mapsto>
           \<lparr>fornitori = Some ''Stone Srl,Cave Spa'', fornitore_scelto = None,
            forn_locked = Some 0\<rparr>],
      ordine_produttori = Map.empty\<rparr>"

definition manual_acc :: acc_row where
  "manual_acc =
     \<lparr>acc_data = Some ''2025-05-10 11:00:00'', acc_materiale = Some ''Granite'',
      acc_tipo = Some ''Flamed'', acc_spessore = Some ''30mm'',
      acc_dimensione_x = Some ''280'', acc_dimensione_y = Some ''160'',
      quantita_totale = Some 5, quantita_ricevuta = Some 0,
      acc_numero_ordine = None, acc_fornitore = Some ''Stone Srl'',
      acc_produttore = Some ''Acme'', acc_data_prevista = Some ''2025-06-01'',
      ubicazione_lettera = Some ''B'', ubicazione_numero = Some 4\<rparr>"

definition manual_db :: db where
  "manual_db =
     \<lparr>riordini_accettazione = [3 \<mapsto> manual_acc],
      riordini_effettuati = [],
      ordine_fornitori = Map.empty,
      ordine_produttori = Map.empty\<rparr>"

text \<open>
  The form of \<^verbatim>\<open>/add\<close> as the redirect of \<^verbatim>\<open>accettazione_update\<close> prefills it with the id
  of the row and the quantity, completed for slabs put at the location A 12 of an empty
  warehouse.
\<close>

definition dock :: "int \<Rightarrow> int \<Rightarrow> add_request" where
  "dock acc_id q =
     \<lparr>f_materiale = ''Marble'', f_tipo = ''Polished'', f_dimensione_x = ''300'',
      f_dimensione_y = ''150'', f_spessore = ''20mm'', f_quantita = Some (py_str q),
      f_ubicazione_lettera = ''A'', f_ubicazione_numero = ''12'',
      f_fornitore = ''Cave Spa'', f_produttore = ''Acme'', f_parent_id = [],
      f_nuovo_ordine = [], f_data_arrivo = [], f_confirm_override = [],
      f_acc_id = Some (py_str acc_id), f_acc_q_totale_new = None,
      r_materiali = [], r_new_id = 100\<rparr>"

text \<open>The same form for granite slabs put at the location B 4.\<close>

definition yard :: "int \<Rightarrow> int \<Rightarrow> add_request" where
  "yard acc_id q =
     (dock acc_id q)
       \<lparr>f_materiale := ''Granite'', f_tipo := ''Flamed'', f_dimensione_x := ''280'',
        f_dimensione_y := ''160'', f_spessore := ''30mm'',
        f_ubicazione_lettera := ''B'', f_ubicazione_numero := ''4'',
        f_fornitore := ''Stone Srl''\<rparr>"

text \<open>
  The form of \<^verbatim>\<open>/add\<close> with \<^verbatim>\<open>nuovo_ordine\<close> set and the quantity 0: a manual order of
  granite, to which SQLite gives the id 4.
\<close>

definition zero_order :: add_request where
  "zero_order =
     \<lparr>f_materiale = ''Granite'', f_tipo = ''Flamed'', f_dimensione_x = ''280'',
      f_dimensione_y = ''160'', f_spessore = ''30mm'', f_quantita = Some ''0'',
      f_ubicazione_lettera = ''B'', f_ubicazione_numero = ''4'',
      f_fornitore = ''Stone Srl'', f_produttore = ''Acme'', f_parent_id = [],
      f_nuovo_ordine = ''on'', f_data_arrivo = ''2025-06-01'', f_confirm_override = [],
      f_acc_id = None, f_acc_q_totale_new = None,
      r_materiali = [], r_new_id = 4\<rparr>"

section \<open>Locking the supplier and the producer of an order\<close>

text \<open>
  The JSON answers of \<^verbatim>\<open>set_fornitore_ordine\<close> and \<^verbatim>\<open>set_produttore_ordine\<close>: success, or
  an error with its HTTP status, \<^verbatim>\<open>Dati mancanti\<close> for a missing field and
  \<^verbatim>\<open>gia confermato\<close> for an order whose choice is already locked.
\<close>

datatype lock_error = Dati_mancanti | Gia_confermato

datatype lock_response = Lock_ok | Lock_error nat lock_error

text \<open>
  \<^verbatim>\<open>UPDATE riordini_effettuati SET fornitore=? WHERE numero_ordine=? AND
  tipo_evento='ordine'\<close>, and the same for the producer.
\<close>

definition storico_set_fornitore :: "string \<Rightarrow> string \<Rightarrow> storico_row list \<Rightarrow> storico_row list" where
  "storico_set_fornitore numero_ordine v h =
     map (\<lambda>r. if se_numero_ordine r = Some numero_ordine \<and> se_tipo_evento r = ''ordine''
               then r\<lparr>se_fornitore := Some v\<rparr> else r) h"

definition storico_set_produttore :: "string \<Rightarrow> string \<Rightarrow> storico_row list \<Rightarrow> storico_row list" where
  "storico_set_produttore numero_ordine v h =
     map (\<lambda>r. if se_numero_ordine r = Some numero_ordine \<and> se_tipo_evento r = ''ordine''
               then r\<lparr>se_produttore := Some v\<rparr> else r) h"

text \<open>\<^verbatim>\<open>set_fornitore_ordine\<close>, lines 7129 to 7165, on the two fields of the JSON body.\<close>

definition set_fornitore_ordine :: "db \<Rightarrow> string option \<Rightarrow> string option \<Rightarrow> lock_response \<times> db" where
  "set_fornitore_ordine s numero_ordine_raw fornitore_raw =
     (let numero_ordine = py_strip (str_or_empty numero_ordine_raw);
          fornitore_val = py_strip (str_or_empty fornitore_raw)
      in if numero_ordine = [] \<or> fornitore_val = [] then (Lock_error 400 Dati_mancanti, s)
         else
           (case ordine_fornitori s numero_ordine of
              Some row \<Rightarrow>
                if truthy_int (forn_locked row) then (Lock_error 400 Gia_confermato, s)
                else
                  (Lock_ok,
                   s\<lparr>ordine_fornitori :=
                        update_where (ordine_fornitori s) numero_ordine
                          (\<lambda>old. old\<lparr>fornitore_scelto := Some fornitore_val, forn_locked := Some 1\<rparr>),
                     riordini_effettuati :=
                        storico_set_fornitore numero_ordine fornitore_val (riordini_effettuati s)\<rparr>)
            | None \<Rightarrow>
                (Lock_ok,
                 s\<lparr>ordine_fornitori :=
                      update_where
                        (insert_or_ignore (ordine_fornitori s) numero_ordine
                           \<lparr>fornitori = None, fornitore_scelto = None, forn_locked = Some 0\<rparr>)
                        numero_ordine
                        (\<lambda>old. old\<lparr>fornitore_scelto := Some fornitore_val, forn_locked := Some 1\<rparr>),
                   riordini_effettuati :=
                      storico_set_fornitore numero_ordine fornitore_val (riordini_effettuati s)\<rparr>)))"

text \<open>\<^verbatim>\<open>set_produttore_ordine\<close>, lines 7188 to 7224.\<close>

definition set_produttore_ordine :: "db \<Rightarrow> string option \<Rightarrow> string option \<Rightarrow> lock_response \<times> db" where
  "set_produttore_ordine s numero_ordine_raw produttore_raw =
     (let numero_ordine = py_strip (str_or_empty numero_ordine_raw);
          produttore_val = py_strip (str_or_empty produttore_raw)
      in if numero_ordine = [] \<or> produttore_val = [] then (Lock_error 400 Dati_mancanti, s)
         else
           (case ordine_produttori s numero_ordine of
              Some row \<Rightarrow>
                if truthy_int (prod_locked row) then (Lock_error 400 Gia_confermato, s)
                else
                  (Lock_ok,
                   s\<lparr>ordine_produttori :=
                        update_where (ordine_produttori s) numero_ordine
                          (\<lambda>old. old\<lparr>produttore_scelto := Some produttore_val, prod_locked := Some 1\<rparr>),
                     riordini_effettuati :=
                        storico_set_produttore numero_ordine produttore_val (riordini_effettuati s)\<rparr>)
            | None \<Rightarrow>
                (Lock_ok,
                 s\<lparr>ordine_produttori :=
                      update_where
                        (insert_or_ignore (ordine_produttori s) numero_ordine
                           \<lparr>produttori = None, produttore_scelto = None, prod_locked = Some 0\<rparr>)
                        numero_ordine
                        (\<lambda>old. old\<lparr>produttore_scelto := Some produttore_val, prod_locked := Some 1\<rparr>),
                   riordini_effettuati :=
                      storico_set_produttore numero_ordine produttore_val (riordini_effettuati s)\<rparr>)))"

text \<open>The lock flag of an order code is set.\<close>

definition forn_lock_set :: "db \<Rightarrow> string \<Rightarrow> bool" where
  "forn_lock_set s numero_ordine =
     (case ordine_fornitori s numero_ordine of None \<Rightarrow> False | Some row \<Rightarrow> truthy_int (forn_locked row))"

definition prod_lock_set :: "db \<Rightarrow> string \<Rightarrow> bool" where
  "prod_lock_set s numero_ordine =
     (case ordine_produttori s numero_ordine of None \<Rightarrow> False | Some row \<Rightarrow> truthy_int (prod_locked row))"

section \<open>Shortage detection: the catalog loop of \<^verbatim>\<open>riordini\<close>\<close>

text \<open>
  An article is the combination (material, type, thickness, dimension x, dimension y,
  producer); the legacy rules are keyed by the first three.
\<close>

type_synonym combo = "string \<times> string \<times> string \<times> string \<times> string \<times> string"

type_synonym terna = "string \<times> string \<times> string"

definition DEFAULT_REORDER_THRESHOLD :: int where
  "DEFAULT_REORDER_THRESHOLD = 5"

text \<open>
  What the loop reads: the four dictionaries loaded from the two rule tables, the set of
  combinations in flight, and the sum of the on-hand quantities of a combination (the
  \<^verbatim>\<open>SELECT SUM(quantita)\<close> of lines 5682 to 5699).
\<close>

record riordini_env =
  threshold_map_ext :: "combo \<rightharpoonup> int"
  threshold_map :: "terna \<rightharpoonup> int"
  reorder_qty_map_ext :: "combo \<rightharpoonup> int option"
  reorder_qty_map :: "terna \<rightharpoonup> int option"
  active_keys :: "combo set"
  giacenza :: "combo \<Rightarrow> int"

text \<open>The key of a catalog row: dimensions and producer trimmed.\<close>

definition combo_key :: "combo \<Rightarrow> combo" where
  "combo_key row =
     (case row of (mat, tp, sp, dx, dy, prd) \<Rightarrow> (mat, tp, sp, py_strip dx, py_strip dy, py_strip prd))"

text \<open>Lines 5704 to 5706: the extended rule first, else the legacy rule, else the default.\<close>

definition th_val_of :: "riordini_env \<Rightarrow> combo \<Rightarrow> int" where
  "th_val_of env k =
     (case threshold_map_ext env k of
        Some th \<Rightarrow> th
      | None \<Rightarrow>
          (case k of (mat, tp, sp, dx, dy, prd) \<Rightarrow>
             (case threshold_map env (mat, tp, sp) of
                Some th \<Rightarrow> th
              | None \<Rightarrow> DEFAULT_REORDER_THRESHOLD)))"

text \<open>
  Lines 5714 to 5725: the manual reorder quantity as stored, from the extended dictionary
  when it has the key, else from the legacy one; and the same with a value \<open>\<le> 0\<close> read as
  unset.
\<close>

definition rq_manual_raw_of :: "riordini_env \<Rightarrow> combo \<Rightarrow> int option" where
  "rq_manual_raw_of env k =
     (case reorder_qty_map_ext env k of
        Some v \<Rightarrow> v
      | None \<Rightarrow>
          (case k of (mat, tp, sp, dx, dy, prd) \<Rightarrow>
             (case reorder_qty_map env (mat, tp, sp) of Some v \<Rightarrow> v | None \<Rightarrow> None)))"

definition rq_manual_of :: "riordini_env \<Rightarrow> combo \<Rightarrow> int option" where
  "rq_manual_of env k =
     (case rq_manual_raw_of env k of
        None \<Rightarrow> None
      | Some r \<Rightarrow> if r \<le> 0 then None else Some r)"

text \<open>Lines 5729 to 5744: the quantity to order.\<close>

definition riordino_qty :: "int \<Rightarrow> int \<Rightarrow> int option \<Rightarrow> int option" where
  "riordino_qty total_qty th_val rq_manual =
     (if total_qty \<le> th_val then
        (case rq_manual of
           None \<Rightarrow> Some ((th_val + 1) - total_qty)
         | Some r \<Rightarrow>
             if total_qty + r \<le> th_val + 1 then Some ((th_val + 1) - total_qty) else Some r)
      else rq_manual)"

text \<open>
  A row of the reorder list (the list of pallets and the display id of a row are left
  out).
\<close>

record reorder_row =
  rr_combo :: combo
  rr_quantita_totale :: int
  rr_riordino_qty :: "int option"

text \<open>
  The loop over the catalog rows, lines 5660 to 5782: a combination already seen is
  skipped, then one in flight, then one whose threshold is 0; the others are listed when
  their quantity is at most the threshold.
\<close>

fun riordini_loop :: "riordini_env \<Rightarrow> combo list \<Rightarrow> combo list \<Rightarrow> reorder_row list" where
  "riordini_loop env seen_combos [] = []"
| "riordini_loop env seen_combos (row # catalog_rows) =
     (if combo_key row \<in> set seen_combos then riordini_loop env seen_combos catalog_rows
      else if combo_key row \<in> active_keys env then
        riordini_loop env (combo_key row # seen_combos) catalog_rows
      else if th_val_of env (combo_key row) = 0 then
        riordini_loop env (combo_key row # seen_combos) catalog_rows
      else if giacenza env (combo_key row) \<le> th_val_of env (combo_key row) then
        \<lparr>rr_combo = combo_key row,
         rr_quantita_totale = giacenza env (combo_key row),
         rr_riordino_qty =
           riordino_qty (giacenza env (combo_key row)) (th_val_of env (combo_key row))
             (rq_manual_of env (combo_key row))\<rparr>
        # riordini_loop env (combo_key row # seen_combos) catalog_rows
      else riordini_loop env (combo_key row # seen_combos) catalog_rows)"

definition reorder_rows :: "riordini_env \<Rightarrow> combo list \<Rightarrow> reorder_row list" where
  "reorder_rows env catalog_rows = riordini_loop env [] catalog_rows"

text \<open>The suggestion as the specification words it, on the manual quantity as stored.\<close>

definition suggest_spec :: "int \<Rightarrow> int \<Rightarrow> int option \<Rightarrow> int" where
  "suggest_spec stock threshold reorder_quantity =
     (case reorder_quantity of
        None \<Rightarrow> threshold + 1 - stock
      | Some R \<Rightarrow> if stock + R \<le> threshold + 1 then threshold + 1 - stock else R)"

section \<open>Threshold rules: \<^verbatim>\<open>update_soglia\<close>\<close>

text \<open>
  The extended rule table \<^verbatim>\<open>riordino_soglie_ext\<close>, keyed by the six fields, and the legacy
  table \<^verbatim>\<open>riordino_soglie\<close>, keyed by material, type and thickness.  The extended table
  is taken in its current schema, which \<^verbatim>\<open>ensure_riordino_soglie_ext_schema\<close> leaves as it
  is.
\<close>

record soglia_row =
  threshold :: int
  quantita_riordino :: "int option"

record soglie_db =
  riordino_soglie_ext :: "combo \<rightharpoonup> soglia_row"
  riordino_soglie :: "terna \<rightharpoonup> soglia_row"

text \<open>The fields of the form of \<^verbatim>\<open>/update_soglia\<close>.\<close>

record soglia_form =
  sf_materiale :: "string option"
  sf_tipo :: "string option"
  sf_spessore :: "string option"
  sf_dimensione_x :: "string option"
  sf_dimensione_y :: "string option"
  sf_produttore :: "string option"
  sf_soglia :: "string option"

text \<open>
  Lines 10145 to 10152: the threshold of the form; a missing or non-numeric value and a
  negative value give the default.
\<close>

definition soglia_val_of :: "string option \<Rightarrow> int" where
  "soglia_val_of soglia_raw =
     (case soglia_raw of
        None \<Rightarrow> DEFAULT_REORDER_THRESHOLD
      | Some v \<Rightarrow>
          (case py_int v of
             None \<Rightarrow> DEFAULT_REORDER_THRESHOLD
           | Some n \<Rightarrow> if n < 0 then DEFAULT_REORDER_THRESHOLD else n))"

text \<open>A stored reorder quantity when it is positive.\<close>

definition positive_qr :: "soglia_row option \<Rightarrow> int option" where
  "positive_qr row =
     (case row of
        None \<Rightarrow> None
      | Some r \<Rightarrow>
          (case quantita_riordino r of
             None \<Rightarrow> None
           | Some q \<Rightarrow> if q > 0 then Some q else None))"

definition form_combo :: "soglia_form \<Rightarrow> combo" where
  "form_combo f =
     (py_strip (str_or_empty (sf_materiale f)), py_strip (str_or_empty (sf_tipo f)),
      py_strip (str_or_empty (sf_spessore f)), py_strip (str_or_empty (sf_dimensione_x f)),
      py_strip (str_or_empty (sf_dimensione_y f)), py_strip (str_or_empty (sf_produttore f)))"

definition form_terna :: "soglia_form \<Rightarrow> terna" where
  "form_terna f =
     (py_strip (str_or_empty (sf_materiale f)), py_strip (str_or_empty (sf_tipo f)),
      py_strip (str_or_empty (sf_spessore f)))"

text \<open>
  Lines 10156 to 10184: the reorder quantity kept for the combination, from the extended
  table, else from the legacy table, else 1.
\<close>

definition qr_val_of :: "soglie_db \<Rightarrow> soglia_form \<Rightarrow> int" where
  "qr_val_of s f =
     (case positive_qr (riordino_soglie_ext s (form_combo f)) of
        Some q \<Rightarrow> q
      | None \<Rightarrow>
          (case positive_qr (riordino_soglie s (form_terna f)) of
             Some q \<Rightarrow> q
           | None \<Rightarrow> 1))"

text \<open>
  \<^verbatim>\<open>update_soglia\<close>, lines 10139 to 10193: one \<^verbatim>\<open>INSERT OR REPLACE\<close> into the extended
  table.  No statement of the handler writes the legacy table.
\<close>

definition update_soglia :: "soglia_form \<Rightarrow> soglie_db \<Rightarrow> soglie_db" where
  "update_soglia f s =
     s\<lparr>riordino_soglie_ext :=
         (riordino_soglie_ext s)(form_combo f \<mapsto>
            \<lparr>threshold = soglia_val_of (sf_soglia f), quantita_riordino = Some (qr_val_of s f)\<rparr>)\<rparr>"

text \<open>
  The extended and the legacy upsert of the configuration page (lines 9778 to 9788), on
  one line of its form with the threshold and the reorder quantity already read.
\<close>

definition config_upsert :: "combo \<Rightarrow> int \<Rightarrow> int \<Rightarrow> soglie_db \<Rightarrow> soglie_db" where
  "config_upsert k soglia_val qr_val s =
     (case k of (mat, tp, sp, dx, dy, prd) \<Rightarrow>
        s\<lparr>riordino_soglie_ext :=
            (riordino_soglie_ext s)(k \<mapsto> \<lparr>threshold = soglia_val, quantita_riordino = Some qr_val\<rparr>),
          riordino_soglie :=
            (riordino_soglie s)((mat, tp, sp) \<mapsto>
               \<lparr>threshold = soglia_val, quantita_riordino = Some qr_val\<rparr>)\<rparr>)"

text \<open>Example data for the rules of the marble article.\<close>

definition marble_key :: combo where
  "marble_key = (''Marble'', ''Polished'', ''20mm'', ''300'', ''150'', ''Acme'')"

definition marble_env :: "int option \<Rightarrow> int \<Rightarrow> int \<Rightarrow> riordini_env" where
  "marble_env R th stock =
     \<lparr>threshold_map_ext = [marble_key \<mapsto> th],
      threshold_map = Map.empty,
      reorder_qty_map_ext = [marble_key \<mapsto> R],
      reorder_qty_map = Map.empty,
      active_keys = {},
      giacenza = (\<lambda>k. stock)\<rparr>"

definition legacy_soglie :: soglie_db where
  "legacy_soglie =
     \<lparr>riordino_soglie_ext = Map.empty,
      riordino_soglie =
        [(''Marble'', ''Polished'', ''20mm'') \<mapsto> \<lparr>threshold = 5, quantita_riordino = Some 10\<rparr>]\<rparr>"

definition marble_form :: soglia_form where
  "marble_form =
     \<lparr>sf_materiale = Some ''Marble'', sf_tipo = Some ''Polished'', sf_spessore = Some ''20mm'',
      sf_dimensione_x = Some ''300'', sf_dimensione_y = Some ''150'', sf_produttore = Some ''Acme'',
      sf_soglia = Some ''9''\<rparr>"

section \<open>Verified properties\<close>

subsection \<open>Apportionment\<close>

lemma clamp_qty_le: "clamp_qty idx remaining q \<le> remaining"
  by (simp add: clamp_qty_def Let_def)

lemma clamp_qty_later: "0 < idx \<Longrightarrow> clamp_qty idx remaining q = min q remaining"
  by (simp add: clamp_qty_def min_def)

lemma clamp_qty_first: "clamp_qty 0 remaining q = min (if q < 1 then 1 else q) remaining"
  by (simp add: clamp_qty_def min_def)

lemma clamp_qty_first_pos: "1 \<le> remaining \<Longrightarrow> 1 \<le> clamp_qty 0 remaining q"
  by (simp add: clamp_qty_def Let_def)

lemma spec_loop_exhausted: "remaining \<le> 0 \<Longrightarrow> apportion_spec_loop i remaining ps = []"
proof (induction ps arbitrary: i)
  case Nil
  show ?case by simp
next
  case (Cons p ps)
  obtain d q where p: "p = (d, q)" by (cases p)
  from Cons.prems have "\<not> min (if i = 0 \<and> q < 1 then 1 else q) remaining > 0" by simp
  with Cons show ?case by (simp add: p)
qed

lemma spec_loop_later: "0 < i \<Longrightarrow> 0 < j \<Longrightarrow> apportion_spec_loop i remaining ps = apportion_spec_loop j remaining ps"
proof (induction ps arbitrary: i j remaining)
  case Nil
  show ?case by simp
next
  case (Cons p ps)
  obtain d q where p: "p = (d, q)" by (cases p)
  have step: "\<And>r. apportion_spec_loop (Suc i) r ps = apportion_spec_loop (Suc j) r ps"
    by (rule Cons.IH) simp_all
  from Cons.prems show ?case by (simp add: p step)
qed

lemma loop_refines_later:
  "0 < idx \<Longrightarrow>
   accepted_pairs (clean_pairs_loop prods_list form_prod idx remaining ps) =
   apportion_spec_loop (Suc 0) remaining
     (dated (map (\<lambda>(dt_raw, q_raw). (py_strip dt_raw, parse_qty q_raw)) ps))"
proof (induction ps arbitrary: idx remaining)
  case Nil
  show ?case by (simp add: accepted_pairs_def dated_def)
next
  case (Cons p ps)
  obtain dt_raw q_raw where p: "p = (dt_raw, q_raw)" by (cases p)
  let ?c = "min (parse_qty q_raw) remaining"
  have cl: "clamp_qty idx remaining (parse_qty q_raw) = ?c"
    using Cons.prems by (rule clamp_qty_later)
  have IH: "\<And>r. accepted_pairs (clean_pairs_loop prods_list form_prod (Suc idx) r ps) =
      apportion_spec_loop (Suc (Suc 0)) r
        (dated (map (\<lambda>(dt_raw, q_raw). (py_strip dt_raw, parse_qty q_raw)) ps))"
    using Cons.IH [of "Suc idx"] spec_loop_later [of "Suc 0" "Suc (Suc 0)"] by simp
  show ?case
  proof (cases "py_strip dt_raw = []")
    case True
    then show ?thesis using Cons.IH [of "Suc idx" remaining] by (simp add: p dated_def)
  next
    case False
    show ?thesis
    proof (cases "?c > 0")
      case True
      then have rem: "remaining \<noteq> 0" by auto
      show ?thesis
      proof (cases "remaining - ?c \<le> 0")
        case True
        with \<open>?c > 0\<close> False rem show ?thesis
          by (simp add: p cl dated_def accepted_pairs_def spec_loop_exhausted)
      next
        case False
        with \<open>?c > 0\<close> \<open>py_strip dt_raw \<noteq> []\<close> rem IH [of "remaining - ?c"] show ?thesis
          by (simp add: p cl dated_def accepted_pairs_def)
      qed
    next
      case nonpos: False
      show ?thesis
      proof (cases "remaining \<le> 0")
        case True
        with nonpos False show ?thesis
          by (simp add: p cl dated_def accepted_pairs_def spec_loop_exhausted)
      next
        case False
        with nonpos \<open>py_strip dt_raw \<noteq> []\<close> IH [of remaining] show ?thesis
          by (simp add: p cl dated_def accepted_pairs_def)
      qed
    qed
  qed
qed

lemma loop_refines_first:
  assumes "py_strip dt_raw \<noteq> []"
  shows "accepted_pairs (clean_pairs_loop prods_list form_prod 0 remaining ((dt_raw, q_raw) # ps)) =
   apportion_spec_loop 0 remaining
     (dated (map (\<lambda>(dt_raw, q_raw). (py_strip dt_raw, parse_qty q_raw)) ((dt_raw, q_raw) # ps)))"
proof -
  let ?c = "min (if parse_qty q_raw < 1 then 1 else parse_qty q_raw) remaining"
  have cl: "clamp_qty 0 remaining (parse_qty q_raw) = ?c" by (rule clamp_qty_first)
  have later: "\<And>r. accepted_pairs (clean_pairs_loop prods_list form_prod (Suc 0) r ps) =
      apportion_spec_loop (Suc 0) r
        (dated (map (\<lambda>(dt_raw, q_raw). (py_strip dt_raw, parse_qty q_raw)) ps))"
    by (rule loop_refines_later) simp
  show ?thesis
  proof (cases "?c > 0")
    case True
    then have rem: "remaining \<noteq> 0" by auto
    show ?thesis
    proof (cases "remaining - ?c \<le> 0")
      case True
      with \<open>?c > 0\<close> assms rem show ?thesis
        by (simp add: cl dated_def accepted_pairs_def spec_loop_exhausted)
    next
      case False
      with \<open>?c > 0\<close> assms rem later [of "remaining - ?c"] show ?thesis
        by (simp add: cl dated_def accepted_pairs_def)
    qed
  next
    case nonpos: False
    show ?thesis
    proof (cases "remaining \<le> 0")
      case True
      with nonpos assms show ?thesis
        by (simp add: cl dated_def accepted_pairs_def spec_loop_exhausted)
    next
      case False
      with nonpos assms later [of remaining] show ?thesis
        by (simp add: cl dated_def accepted_pairs_def)
    qed
  qed
qed

lemma clean_pairs_refines:
  assumes "\<not> first_date_blank dates_list qtys_list"
  shows "accepted_pairs (clean_pairs Q dates_list qtys_list prods_list form_prod) =
         apportion_spec Q (dated (read_pairs dates_list qtys_list))"
proof (cases "zip dates_list qtys_list")
  case Nil
  show ?thesis
    by (simp only: clean_pairs_def apportion_spec_def read_pairs_def dated_def accepted_pairs_def Nil)
      simp
next
  case (Cons p ps)
  obtain dt_raw q_raw where p: "p = (dt_raw, q_raw)" by (cases p)
  from assms Cons p have nb: "py_strip dt_raw \<noteq> []" by (simp add: first_date_blank_def)
  from Cons have ne: "dates_list \<noteq> []" by auto
  show ?thesis
    using loop_refines_first [OF nb, of prods_list form_prod Q q_raw ps] ne
    by (simp add: clean_pairs_def apportion_spec_def read_pairs_def Cons p)
qed



lemma loop_negative:
  "remaining < 0 \<Longrightarrow> clean_pairs_loop prods_list form_prod idx remaining ps = []"
proof (induction ps arbitrary: idx)
  case Nil
  show ?case by simp
next
  case (Cons p ps)
  obtain dt_raw q_raw where p: "p = (dt_raw, q_raw)" by (cases p)
  have "clamp_qty idx remaining (parse_qty q_raw) \<le> remaining" by (rule clamp_qty_le)
  with Cons show ?case by (simp add: p)
qed

lemma accepted_total_pos:
  "ts \<noteq> [] \<Longrightarrow> \<forall>(dt, q, pr) \<in> set ts. 1 \<le> q \<Longrightarrow> 0 < accepted_total ts"
proof (induction ts)
  case Nil
  then show ?case by simp
next
  case (Cons t ts)
  obtain dt q pr where t: "t = (dt, q, pr)" by (cases t)
  show ?case
  proof (cases "ts = []")
    case True
    with Cons.prems show ?thesis by (simp add: accepted_total_def t)
  next
    case False
    with Cons have "0 < accepted_total ts" by simp
    with Cons.prems show ?thesis by (simp add: accepted_total_def t)
  qed
qed

lemma loop_first_accepted:
  assumes "1 \<le> remaining" and "py_strip dt_raw \<noteq> []"
  shows "\<exists>rest. clean_pairs_loop prods_list form_prod 0 remaining ((dt_raw, q_raw) # ps) =
           (py_strip dt_raw, clamp_qty 0 remaining (parse_qty q_raw), prod_val_of prods_list form_prod 0) # rest"
proof -
  have "1 \<le> clamp_qty 0 remaining (parse_qty q_raw)"
    using assms(1) by (rule clamp_qty_first_pos)
  with assms(2) show ?thesis by simp
qed

text \<open>
  Claim C1, as amended.  When the pair at index 0 does not have a blank date, the accepted
  (date, quantity) pairs of \<^verbatim>\<open>confirm_rdo\<close> are those of the reference algorithm run on
  the submitted pairs with the blank-dated ones left out, dates trimmed: the residual
  starts at \<open>Q\<close>, the first quantity is raised to 1, every quantity is lowered to the
  residual, a pair is accepted when its clamped quantity is positive, and nothing is
  accepted once the residual is 0.  For \<open>Q = 20\<close> and the pairs (2024-06-01, 5),
  (2024-06-15, 30) the accepted pairs are (2024-06-01, 5), (2024-06-15, 15).
\<close>

theorem clean_pairs_follows_reference:
  "(\<not> first_date_blank dates_list qtys_list \<longrightarrow>
      accepted_pairs (clean_pairs Q dates_list qtys_list prods_list form_prod) =
      apportion_spec Q (dated (read_pairs dates_list qtys_list)))
   \<and> accepted_pairs (clean_pairs 20 [''2024-06-01'', ''2024-06-15''] [''5'', ''30''] prods_list form_prod) =
       [(''2024-06-01'', 5), (''2024-06-15'', 15)]"
proof -
  have nb: "\<not> first_date_blank [''2024-06-01'', ''2024-06-15''] [''5'', ''30'']"
    by code_simp
  have ex: "apportion_spec 20 (dated (read_pairs [''2024-06-01'', ''2024-06-15''] [''5'', ''30''])) =
      [(''2024-06-01'', 5), (''2024-06-15'', 15)]"
    by code_simp
  show ?thesis
    using clean_pairs_refines [OF nb, of 20 prods_list form_prod] ex
    by (simp add: clean_pairs_refines)
qed

text \<open>
  The amended claim C1 at a submission with a blank date in the middle and a first
  quantity of 0.
\<close>

theorem clean_pairs_follows_reference_witness:
  "\<not> first_date_blank [''2024-06-01'', '' '', ''2024-06-15 ''] [''0'', ''7'', ''30'']
   \<and> accepted_pairs (clean_pairs 20 [''2024-06-01'', '' '', ''2024-06-15 ''] [''0'', ''7'', ''30''] [] '''') =
       [(''2024-06-01'', 1), (''2024-06-15'', 19)]"
proof -
  have nb: "\<not> first_date_blank [''2024-06-01'', '' '', ''2024-06-15 ''] [''0'', ''7'', ''30'']"
    by code_simp
  have ex: "apportion_spec 20 (dated (read_pairs [''2024-06-01'', '' '', ''2024-06-15 ''] [''0'', ''7'', ''30''])) =
      [(''2024-06-01'', 1), (''2024-06-15'', 19)]"
    by code_simp
  from nb clean_pairs_follows_reference
    [of "[''2024-06-01'', '' '', ''2024-06-15 '']" "[''0'', ''7'', ''30'']" 20 "[]" "''''"]
  have "accepted_pairs (clean_pairs 20 [''2024-06-01'', '' '', ''2024-06-15 ''] [''0'', ''7'', ''30''] [] '''') =
      apportion_spec 20 (dated (read_pairs [''2024-06-01'', '' '', ''2024-06-15 ''] [''0'', ''7'', ''30'']))"
    by blast
  with nb ex show ?thesis by simp
qed

text \<open>
  Claim C1 as stated fails on a submission whose first date is blank: the reference
  algorithm run on the submitted pairs accepts the blank-dated pair with 5 and gives the
  second 15, the code skips the blank-dated pair and gives the second pair all 20.
\<close>

theorem clean_pairs_blank_first_date_counterexample:
  "accepted_pairs (clean_pairs 20 ['''', ''2024-06-15''] [''5'', ''30''] [] '''') = [(''2024-06-15'', 20)]
   \<and> apportion_spec 20 (read_pairs ['''', ''2024-06-15''] [''5'', ''30'']) = [('''', 5), (''2024-06-15'', 15)]
   \<and> accepted_pairs (clean_pairs 20 ['''', ''2024-06-15''] [''5'', ''30''] [] '''') \<noteq>
      apportion_spec 20 (read_pairs ['''', ''2024-06-15''] [''5'', ''30''])"
  by code_simp












subsection \<open>Order codes\<close>

lemma is_digit_digit_char: "d < 10 \<Longrightarrow> is_digit (digit_char d)"
  by (simp add: is_digit_def digit_char_def)

lemma digit_val_digit_char: "d < 10 \<Longrightarrow> digit_val (digit_char d) = int d"
  by (simp add: digit_val_def digit_char_def)

lemma is_digit_zero: "is_digit (CHR ''0'')" and digit_val_zero: "digit_val (CHR ''0'') = 0"
  by (simp_all add: is_digit_def digit_val_def)

lemma is_digit_not_special:
  assumes "is_digit c"
  shows "\<not> py_isspace c" and "c \<noteq> CHR ''-''" and "c \<noteq> CHR ''+''" and "c \<noteq> CHR ''/''"
    and "\<not> int_isspace c"
  using assms by (auto simp: is_digit_def py_isspace_def int_isspace_def Let_def)

lemma dec_digits_all: "c \<in> set (dec_digits n) \<Longrightarrow> is_digit c"
proof (induction n arbitrary: c rule: dec_digits.induct)
  case (1 n)
  show ?case
  proof (cases "n < 10")
    case True
    with "1.prems" show ?thesis by (simp add: dec_digits.simps [of n] is_digit_digit_char)
  next
    case False
    with "1.prems" "1.IH" show ?thesis
      by (auto simp: dec_digits.simps [of n] is_digit_digit_char)
  qed
qed

lemma dec_digits_nonempty: "dec_digits n \<noteq> []"
  by (simp add: dec_digits.simps [of n])

lemma py_str_chars: "c \<in> set (py_str n) \<Longrightarrow> c = CHR ''-'' \<or> is_digit c"
  by (auto simp: py_str_def dec_digits_all split: if_splits)

lemma digits_value_dec_digits:
  "0 \<le> n \<Longrightarrow>
   digits_value acc p (dec_digits n @ rest) =
   digits_value (acc * 10 ^ length (dec_digits n) + n) True rest"
proof (induction n arbitrary: acc p rest rule: dec_digits.induct)
  case (1 n)
  show ?case
  proof (cases "n < 10")
    case True
    with "1.prems" show ?thesis
      by (simp add: dec_digits.simps [of n] is_digit_digit_char digit_val_digit_char)
  next
    case False
    have d: "nat (n mod 10) < 10" by simp
    have q: "0 \<le> n div 10" using "1.prems" by simp
    have "digits_value acc p (dec_digits n @ rest) =
          digits_value acc p (dec_digits (n div 10) @ (digit_char (nat (n mod 10)) # rest))"
      using False by (simp add: dec_digits.simps [of n])
    also have "\<dots> = digits_value (acc * 10 ^ length (dec_digits (n div 10)) + n div 10) True
                       (digit_char (nat (n mod 10)) # rest)"
      using False q by (rule "1.IH")
    also have "\<dots> = digits_value ((acc * 10 ^ length (dec_digits (n div 10)) + n div 10) * 10
                        + n mod 10) True rest"
      using d by (simp add: is_digit_digit_char digit_val_digit_char)
    also have "(acc * 10 ^ length (dec_digits (n div 10)) + n div 10) * 10 + n mod 10 =
               acc * 10 ^ length (dec_digits n) + n"
    proof -
      have "n div 10 * 10 + n mod 10 = n" by simp
      moreover have "length (dec_digits n) = Suc (length (dec_digits (n div 10)))"
        using False by (simp add: dec_digits.simps [of n])
      ultimately show ?thesis by (simp add: algebra_simps)
    qed
    finally show ?thesis .
  qed
qed

lemma digits_value_zeros:
  "digits_value 0 p (replicate k (CHR ''0'') @ s) = digits_value 0 (p \<or> 0 < k) s"
  by (induction k arbitrary: p) (simp_all add: is_digit_zero digit_val_zero)

lemma digits_value_zfill: "0 \<le> n \<Longrightarrow> digits_value 0 False (zfill w (dec_digits n)) = Some n"
  using digits_value_dec_digits [of n 0 _ "[]"]
  by (simp add: zfill_def digits_value_zeros)

lemma zfill_all_digits: "c \<in> set (zfill w (dec_digits n)) \<Longrightarrow> is_digit c"
  by (auto simp: zfill_def is_digit_zero dec_digits_all)

lemma zfill_nonempty: "zfill w (dec_digits n) \<noteq> []"
  by (simp add: zfill_def dec_digits_nonempty)

lemma py_strip_id:
  assumes "s \<noteq> []" and "\<not> py_isspace (hd s)" and "\<not> py_isspace (last s)"
  shows "py_strip s = s"
proof -
  from assms(1,2) have "dropWhile py_isspace s = s" by (cases s) simp_all
  moreover from assms(1,3) have "dropWhile py_isspace (rev s) = rev s"
    by (cases "rev s") (simp_all add: hd_rev [symmetric])
  ultimately show ?thesis by (simp add: py_strip_def)
qed

lemma int_strip_id:
  assumes "s \<noteq> []" and "\<not> int_isspace (hd s)" and "\<not> int_isspace (last s)"
  shows "int_strip s = s"
proof -
  from assms(1,2) have "dropWhile int_isspace s = s" by (cases s) simp_all
  moreover from assms(1,3) have "dropWhile int_isspace (rev s) = rev s"
    by (cases "rev s") (simp_all add: hd_rev [symmetric])
  ultimately show ?thesis by (simp add: int_strip_def)
qed

lemma py_int_format_04d:
  assumes "0 \<le> k"
  shows "py_int (format_04d k) = Some k"
proof -
  let ?s = "zfill 4 (dec_digits k)"
  have ne: "?s \<noteq> []" by (rule zfill_nonempty)
  then obtain c cs where s: "?s = c # cs" by (cases ?s) auto
  have "hd ?s \<in> set ?s" and "last ?s \<in> set ?s" using ne by simp_all
  then have h: "is_digit (hd ?s)" and l: "is_digit (last ?s)" by (auto dest: zfill_all_digits)
  have strip: "int_strip ?s = ?s"
    using ne h l by (intro int_strip_id is_digit_not_special)
  from h s have c: "c \<noteq> CHR ''-''" "c \<noteq> CHR ''+''" using is_digit_not_special by auto
  have "digits_value 0 False (c # cs) = Some k"
    using digits_value_zfill [of k 4] assms s by simp
  with c strip s assms show ?thesis by (simp add: py_int_def format_04d_def)
qed

lemma startswith_append: "startswith (p @ s) p"
  by (induction p) simp_all

lemma after_first_slash_append:
  "CHR ''/'' \<notin> set xs \<Longrightarrow> after_first_slash (xs @ CHR ''/'' # ys) = Some ys"
  by (induction xs) auto

lemma prog_part_of_generated:
  assumes "0 \<le> k"
  shows "prog_part_of (year_prefix y) (year_prefix y @ format_04d k) = Some k"
proof -
  let ?code = "year_prefix y @ format_04d k"
  let ?f = "zfill 4 (dec_digits k)"
  have f: "format_04d k = ?f" using assms by (simp add: format_04d_def)
  have fne: "?f \<noteq> []" by (rule zfill_nonempty)
  have "last ?code = last ?f" using fne by (simp add: f)
  moreover have "last ?f \<in> set ?f" using fne by simp
  ultimately have "is_digit (last ?code)" by (auto dest: zfill_all_digits)
  then have l: "\<not> py_isspace (last ?code)" by (rule is_digit_not_special)
  have h: "\<not> py_isspace (hd ?code)" by (simp add: year_prefix_def py_isspace_def)
  have ne: "?code \<noteq> []" by (simp add: year_prefix_def)
  have strip: "py_strip ?code = ?code" using ne h l by (rule py_strip_id)
  have "CHR ''/'' \<notin> set (''TM'' @ py_str y)"
    using py_str_chars [of _ y] is_digit_not_special(4) by auto
  then have "after_first_slash ((''TM'' @ py_str y) @ CHR ''/'' # format_04d k) = Some (format_04d k)"
    by (rule after_first_slash_append)
  then have slash: "after_first_slash ?code = Some (format_04d k)" by (simp add: year_prefix_def)
  show ?thesis
    using ne strip slash startswith_append [of "year_prefix y" "format_04d k"] py_int_format_04d [OF assms]
    by (simp add: prog_part_of_def)
qed

lemma max_prog_loop_append:
  "max_prog_loop pre m (xs @ ys) = max_prog_loop pre (max_prog_loop pre m xs) ys"
  by (induction xs arbitrary: m) (simp_all split: option.splits)

lemma Max_insert_step:
  assumes "finite S"
  shows "Max (insert m (insert p S)) = (if p > m then Max (insert p S) else Max (insert (m::int) S))"
proof (cases "p > m")
  case True
  have "Max (insert m (insert p S)) = max m (Max (insert p S))"
    using assms by (simp add: Max_insert)
  moreover have "p \<le> Max (insert p S)" using assms by simp
  ultimately show ?thesis using True by simp
next
  case False
  have "Max (insert m (insert p S)) = Max (insert p (insert m S))"
    by (simp add: insert_commute)
  also have "\<dots> = max p (Max (insert m S))" using assms by (simp add: Max_insert)
  finally have "Max (insert m (insert p S)) = max p (Max (insert m S))" .
  moreover have "m \<le> Max (insert m S)" using assms by simp
  ultimately show ?thesis using False by simp
qed

lemma max_prog_loop_Max:
  "max_prog_loop pre m codes = Max (insert m (set (List.map_filter (prog_part_of pre) codes)))"
proof (induction codes arbitrary: m)
  case Nil
  show ?case by (simp add: map_filter_simps)
next
  case (Cons c codes)
  show ?case
  proof (cases "prog_part_of pre c")
    case None
    then show ?thesis using Cons.IH by (simp add: map_filter_simps)
  next
    case (Some p)
    have fin: "finite (set (List.map_filter (prog_part_of pre) codes))" by simp
    show ?thesis using Some Cons.IH Max_insert_step [OF fin, of m p]
      by (simp add: map_filter_simps)
  qed
qed

lemma order_codes_Cons:
  "order_codes (r # h) =
     (case se_numero_ordine r of None \<Rightarrow> order_codes h
      | Some c \<Rightarrow> if c = [] then order_codes h else c # order_codes h)"
  by (simp add: order_codes_def map_filter_simps split: option.splits)

lemma order_codes_append: "order_codes (h @ h') = order_codes h @ order_codes h'"
  by (induction h) (simp_all add: order_codes_Cons order_codes_def map_filter_simps split: option.splits)

lemma max_prog_loop_filter:
  "max_prog_loop (year_prefix y) m (order_codes (filter (code_of_year y) h)) =
   max_prog_loop (year_prefix y) m (order_codes h)"
proof (induction h arbitrary: m)
  case Nil
  show ?case by simp
next
  case (Cons r h)
  show ?case
  proof (cases "code_of_year y r")
    case True
    then show ?thesis using Cons.IH
      by (simp add: order_codes_Cons split: option.splits)
  next
    case False
    then have "\<And>c. se_numero_ordine r = Some c \<Longrightarrow> prog_part_of (year_prefix y) c = None"
      by (simp add: code_of_year_def prog_part_of_def)
    with False show ?thesis using Cons.IH
      by (simp add: order_codes_Cons split: option.splits)
  qed
qed

lemma max_prog_loop_none:
  "\<forall>r \<in> set h. \<not> code_of_year y r \<Longrightarrow> max_prog_loop (year_prefix y) m (order_codes h) = m"
proof -
  assume "\<forall>r \<in> set h. \<not> code_of_year y r"
  then have "filter (code_of_year y) h = []" by (simp add: filter_empty_conv)
  with max_prog_loop_filter [of y m h] show ?thesis by (simp add: order_codes_def map_filter_simps)
qed

lemma confirm_rdo_order_code:
  "fst (confirm_rdo_order year now_str rdo s) = generate_order_code year (riordini_effettuati s)"
  by (simp add: confirm_rdo_order_def Let_def)

lemma confirm_rdo_order_history:
  "order_codes (riordini_effettuati (snd (confirm_rdo_order year now_str rdo s))) =
   order_codes (riordini_effettuati s) @ [generate_order_code year (riordini_effettuati s)]"
proof -
  have "generate_order_code year (riordini_effettuati s) \<noteq> []"
    by (simp add: generate_order_code_def year_prefix_def)
  then show ?thesis
    by (simp add: confirm_rdo_order_def Let_def order_codes_append order_codes_Cons)
      (simp add: order_codes_def map_filter_simps)
qed

lemma generate_order_code_next:
  assumes "max_prog_loop (year_prefix year) 0 (order_codes h) = m" and "0 \<le> m"
  shows "generate_order_code year h = year_prefix year @ format_04d (m + 1)"
  using assms by (simp add: generate_order_code_def)

lemma max_prog_after_confirm:
  assumes "max_prog_loop (year_prefix year) 0 (order_codes (riordini_effettuati s)) = m" and "0 \<le> m"
  shows "max_prog_loop (year_prefix year) 0
           (order_codes (riordini_effettuati (snd (confirm_rdo_order year now_str rdo s)))) = m + 1"
proof -
  have "prog_part_of (year_prefix year) (year_prefix year @ format_04d (m + 1)) = Some (m + 1)"
    using assms(2) by (intro prog_part_of_generated) simp
  then show ?thesis
    using assms
    by (simp add: confirm_rdo_order_history max_prog_loop_append generate_order_code_next)
qed

lemma confirm_orders_codes:
  assumes "max_prog_loop (year_prefix year) 0 (order_codes (riordini_effettuati s)) = m" and "0 \<le> m"
  shows "fst (confirm_orders year reqs s) =
         map (\<lambda>k. year_prefix year @ format_04d (m + int k)) [1..<Suc (length reqs)]"
  using assms
proof (induction reqs arbitrary: s m)
  case Nil
  show ?case by simp
next
  case (Cons req reqs)
  obtain now_str rdo where req: "req = (now_str, rdo)" by (cases req)
  let ?s' = "snd (confirm_rdo_order year now_str rdo s)"
  have code: "fst (confirm_rdo_order year now_str rdo s) = year_prefix year @ format_04d (m + 1)"
    using Cons.prems by (simp add: confirm_rdo_order_code generate_order_code_next)
  have m': "max_prog_loop (year_prefix year) 0 (order_codes (riordini_effettuati ?s')) = m + 1"
    using Cons.prems by (rule max_prog_after_confirm)
  have rest: "fst (confirm_orders year reqs ?s') =
      map (\<lambda>k. year_prefix year @ format_04d (m + 1 + int k)) [1..<Suc (length reqs)]"
    using m' Cons.prems(2) by (intro Cons.IH) simp_all
  have shift: "map (\<lambda>k. year_prefix year @ format_04d (m + 1 + int k)) [1..<Suc (length reqs)] =
      map (\<lambda>k. year_prefix year @ format_04d (m + int k)) [Suc 1..<Suc (Suc (length reqs))]"
  proof -
    have "[Suc 1..<Suc (Suc (length reqs))] = map Suc [1..<Suc (length reqs)]"
      by (rule map_Suc_upt [symmetric])
    then show ?thesis by (simp del: upt_Suc add: comp_def algebra_simps)
  qed
  have "1 < Suc (Suc (length reqs))" by simp
  then have "[1..<Suc (Suc (length reqs))] = 1 # [Suc 1..<Suc (Suc (length reqs))]"
    by (rule upt_conv_Cons)
  then have upt: "[1..<Suc (length (req # reqs))] = 1 # [Suc 1..<Suc (Suc (length reqs))]"
    by (simp del: upt_Suc)
  have "fst (confirm_orders year (req # reqs) s) =
        fst (confirm_rdo_order year now_str rdo s) # fst (confirm_orders year reqs ?s')"
    by (simp add: req split: prod.splits)
  with code rest shift upt show ?case by (simp del: upt_Suc)
qed

lemma generated_codes_distinct:
  "distinct (map (\<lambda>k. year_prefix year @ format_04d (int k)) [1..<Suc n])"
proof -
  have "inj_on (\<lambda>k. year_prefix year @ format_04d (int k)) (set [1..<Suc n])"
  proof (rule inj_onI)
    fix a b
    assume "year_prefix year @ format_04d (int a) = year_prefix year @ format_04d (int b)"
    then have "py_int (format_04d (int a)) = py_int (format_04d (int b))" by simp
    then show "a = b" by (simp add: py_int_format_04d)
  qed
  then show ?thesis by (simp add: distinct_map)
qed

text \<open>
  Claim C3.  The generated code is \<^verbatim>\<open>TM\<close>, the year, a slash and the sequence number
  padded to four digits, where the sequence number is 1 plus the greatest of 0 and the
  numbers of the existing codes that match \<^verbatim>\<open>TM{year}/*\<close>; rows whose code is in another
  format or of another year can be removed without changing the result; and confirming
  \<open>N\<close> requests one after the other, from a history with no code of the year, yields the
  \<open>N\<close> distinct codes numbered 1 to \<open>N\<close>.
\<close>

theorem generate_order_code_sequence:
  "generate_order_code year h =
     ''TM'' @ py_str year @ ''/'' @ format_04d (1 + Max (insert 0 (set (year_sequence_numbers year h))))
   \<and> generate_order_code year (filter (code_of_year year) h) = generate_order_code year h
   \<and> ((\<forall>r \<in> set (riordini_effettuati s). \<not> code_of_year year r) \<longrightarrow>
        fst (confirm_orders year reqs s) =
          map (\<lambda>k. ''TM'' @ py_str year @ ''/'' @ format_04d (int k)) [1..<Suc (length reqs)]
        \<and> distinct (fst (confirm_orders year reqs s)))"
proof -
  have max: "generate_order_code year h =
     ''TM'' @ py_str year @ ''/'' @ format_04d (1 + Max (insert 0 (set (year_sequence_numbers year h))))"
    by (simp add: generate_order_code_def max_prog_loop_Max year_sequence_numbers_def year_prefix_def
        add.commute)
  have ignored: "generate_order_code year (filter (code_of_year year) h) = generate_order_code year h"
    by (simp add: generate_order_code_def max_prog_loop_filter)
  have seq: "fst (confirm_orders year reqs s) =
          map (\<lambda>k. ''TM'' @ py_str year @ ''/'' @ format_04d (int k)) [1..<Suc (length reqs)]
        \<and> distinct (fst (confirm_orders year reqs s))"
    if none: "\<forall>r \<in> set (riordini_effettuati s). \<not> code_of_year year r"
  proof -
    from none have "max_prog_loop (year_prefix year) 0 (order_codes (riordini_effettuati s)) = 0"
      by (rule max_prog_loop_none)
    then have "fst (confirm_orders year reqs s) =
        map (\<lambda>k. year_prefix year @ format_04d (0 + int k)) [1..<Suc (length reqs)]"
      by (rule confirm_orders_codes) simp
    then have codes: "fst (confirm_orders year reqs s) =
        map (\<lambda>k. year_prefix year @ format_04d (int k)) [1..<Suc (length reqs)]"
      by simp
    with generated_codes_distinct [of year "length reqs"]
    have "distinct (fst (confirm_orders year reqs s))" by simp
    with codes show ?thesis by (simp add: year_prefix_def)
  qed
  from max ignored seq show ?thesis by blast
qed

text \<open>
  Claim C3 on a history with one code in the old format and one of 2024: two confirmations
  in 2025 yield TM2025/0001 and TM2025/0002.
\<close>

theorem generate_order_code_sequence_witness:
  "\<not> code_of_year 2025 (order_event ''ORD-000123'')
   \<and> \<not> code_of_year 2025 (order_event ''TM2024/0100'')
   \<and> fst (confirm_orders 2025
        [(''2025-03-02 08:30:00'', marble_rdo), (''2025-03-09 16:00:00'', marble_rdo)] old_db) =
       [''TM2025/0001'', ''TM2025/0002'']
   \<and> generate_order_code 2025 (riordini_effettuati old_db) = ''TM2025/0001''"
proof -
  have none: "\<forall>r \<in> set (riordini_effettuati old_db). \<not> code_of_year 2025 r"
    by code_simp
  have r1: "\<not> code_of_year 2025 (order_event ''ORD-000123'')"
    and r2: "\<not> code_of_year 2025 (order_event ''TM2024/0100'')"
    by code_simp+
  have codes: "map (\<lambda>k. ''TM'' @ py_str 2025 @ ''/'' @ format_04d (int k))
      [1..<Suc (length [(''2025-03-02 08:30:00'', marble_rdo), (''2025-03-09 16:00:00'', marble_rdo)])] =
      [''TM2025/0001'', ''TM2025/0002'']"
    by code_simp
  have first: "generate_order_code 2025 (riordini_effettuati old_db) = ''TM2025/0001''"
    by code_simp
  have "fst (confirm_orders 2025
        [(''2025-03-02 08:30:00'', marble_rdo), (''2025-03-09 16:00:00'', marble_rdo)] old_db) =
      map (\<lambda>k. ''TM'' @ py_str 2025 @ ''/'' @ format_04d (int k))
      [1..<Suc (length [(''2025-03-02 08:30:00'', marble_rdo), (''2025-03-09 16:00:00'', marble_rdo)])]"
    by (rule generate_order_code_sequence
          [of 2025 "riordini_effettuati old_db" old_db
            "[(''2025-03-02 08:30:00'', marble_rdo), (''2025-03-09 16:00:00'', marble_rdo)]",
           THEN conjunct2, THEN conjunct2, THEN mp, OF none, THEN conjunct1])
  then have res: "fst (confirm_orders 2025
        [(''2025-03-02 08:30:00'', marble_rdo), (''2025-03-09 16:00:00'', marble_rdo)] old_db) =
       [''TM2025/0001'', ''TM2025/0002'']"
    using codes by (rule trans)
  show ?thesis by (intro conjI r1 r2 res first)
qed

subsection \<open>Receipts\<close>

lemma digits_value_whole: "0 \<le> n \<Longrightarrow> digits_value 0 p (dec_digits n) = Some n"
  using digits_value_dec_digits [of n 0 p "[]"] by simp

lemma py_int_py_str: "py_int (py_str n) = Some n"
proof (cases "n < 0")
  case True
  let ?d = "dec_digits (- n)"
  have ne: "?d \<noteq> []" by (rule dec_digits_nonempty)
  then have "last ?d \<in> set ?d" by simp
  then have "is_digit (last ?d)" by (rule dec_digits_all)
  then have l: "\<not> int_isspace (last (CHR ''-'' # ?d))" using ne by (simp add: is_digit_not_special)
  have h: "\<not> int_isspace (hd (CHR ''-'' # ?d))" by (simp add: int_isspace_def)
  have strip: "int_strip (CHR ''-'' # ?d) = CHR ''-'' # ?d"
    using _ h l by (rule int_strip_id) simp
  have "digits_value 0 False ?d = Some (- n)" using True by (intro digits_value_whole) simp
  with strip True show ?thesis by (simp add: py_int_def py_str_def)
next
  case False
  let ?d = "dec_digits n"
  have ne: "?d \<noteq> []" by (rule dec_digits_nonempty)
  then obtain c cs where d: "?d = c # cs" by (cases ?d) auto
  have "hd ?d \<in> set ?d" and "last ?d \<in> set ?d" using ne by simp_all
  then have hd: "is_digit (hd ?d)" and l: "is_digit (last ?d)" by (auto dest: dec_digits_all)
  have strip: "int_strip ?d = ?d"
    using ne hd l by (intro int_strip_id is_digit_not_special)
  from hd d have c: "c \<noteq> CHR ''-''" "c \<noteq> CHR ''+''" using is_digit_not_special by auto
  have "digits_value 0 False (c # cs) = Some n"
    using digits_value_whole [of n False] False d by simp
  with c strip d False show ?thesis by (simp add: py_int_def py_str_def)
qed

lemma py_str_nonempty: "py_str n \<noteq> []"
  by (simp add: py_str_def dec_digits_nonempty)

lemma accettazione_update_eq:
  "accettazione_update s i qa qp =
     (case riordini_accettazione s i of
        None \<Rightarrow> (Not_found, s)
      | Some row \<Rightarrow>
          if str_or_empty (acc_numero_ordine row) \<noteq> []
             \<and> \<not> supplier_locked s (str_or_empty (acc_numero_ordine row))
          then (Supplier_not_locked, s)
          else if q_parziale_of qa qp \<le> 0 then (Qty_not_positive, s)
          else if q_parziale_of qa qp > q_totale_of row - q_ricevuta_of row then (Qty_over_residual, s)
          else (Redirect_add i (q_parziale_of qa qp), s))"
  by (auto simp: accettazione_update_def Let_def q_totale_of_def q_ricevuta_of_def
      split: option.splits)

lemma receive_eq:
  "receive now_str i qa qp g s =
     (case riordini_accettazione s i of
        None \<Rightarrow> (Not_found, s)
      | Some row \<Rightarrow>
          if str_or_empty (acc_numero_ordine row) \<noteq> []
             \<and> \<not> supplier_locked s (str_or_empty (acc_numero_ordine row))
          then (Supplier_not_locked, s)
          else if q_parziale_of qa qp \<le> 0 then (Qty_not_positive, s)
          else if q_parziale_of qa qp > q_totale_of row - q_ricevuta_of row then (Qty_over_residual, s)
          else (Redirect_add i (q_parziale_of qa qp), snd (add now_str g s)))"
  by (simp add: receive_def accettazione_update_eq split: option.splits)

text \<open>A request that \<^verbatim>\<open>/add\<close> completes has run the acceptance part.\<close>

lemma add_done:
  "fst (add now_str g s) = Add_done \<Longrightarrow> snd (add now_str g s) = add_accettazione now_str g s"
  by (auto simp: add_def split: if_splits)

text \<open>
  The acceptance part on a form that carries the id of an existing row and a positive
  quantity appends one event with that quantity, whatever the rest of the form.
\<close>

lemma add_accettazione_logs:
  assumes "riordini_accettazione s i = Some row"
    and "f_acc_id g = Some (py_str i)" and "f_quantita g = Some (py_str q)" and "0 < q"
  shows "map se_quantita (riordini_effettuati (add_accettazione now_str g s)) =
           map se_quantita (riordini_effettuati s) @ [q]"
  using assms
  by (simp add: add_accettazione_def add_accettazione_commit_def Let_def str_or_empty_def
      py_str_nonempty py_int_py_str int_or_default_def accepted_qty_of_def)

text \<open>
  Claim C4, as amended.  For a row that exists, a receipt is refused and leaves every
  table as it was: with \<open>Supplier_not_locked\<close> when the row carries a non-empty order code
  and the supplier of that order is not locked (no row for the code, flag not set, or
  chosen supplier blank); when the quantity is \<open>\<le> 0\<close>; and when the quantity exceeds the
  residual \<open>quantita_totale - quantita_ricevuta\<close>.  \<^verbatim>\<open>accettazione_update\<close> itself gives
  the same outcome and never writes.
\<close>

theorem receive_refusals:
  assumes "riordini_accettazione s i = Some row"
  shows "(str_or_empty (acc_numero_ordine row) \<noteq> []
            \<and> \<not> supplier_locked s (str_or_empty (acc_numero_ordine row)) \<longrightarrow>
          receive now_str i qa qp g s = (Supplier_not_locked, s))
       \<and> (q_parziale_of qa qp \<le> 0 \<longrightarrow>
            fst (receive now_str i qa qp g s) \<in> {Supplier_not_locked, Qty_not_positive}
            \<and> snd (receive now_str i qa qp g s) = s)
       \<and> (q_parziale_of qa qp > q_totale_of row - q_ricevuta_of row \<longrightarrow>
            fst (receive now_str i qa qp g s) \<in> {Supplier_not_locked, Qty_not_positive, Qty_over_residual}
            \<and> snd (receive now_str i qa qp g s) = s)
       \<and> accettazione_update s i qa qp = (fst (receive now_str i qa qp g s), s)"
  using assms by (simp add: receive_eq accettazione_update_eq)

text \<open>
  The amended claim C4 on the delivery of 8: supplier not locked, quantity 0, quantity 9.
\<close>

theorem receive_refusals_witness:
  "riordini_accettazione unlocked_db 7 = Some marble_acc
   \<and> str_or_empty (acc_numero_ordine marble_acc) \<noteq> []
   \<and> \<not> supplier_locked unlocked_db (str_or_empty (acc_numero_ordine marble_acc))
   \<and> receive ''2025-04-01 10:00:00'' 7 (Some ''3'') None (dock 7 3) unlocked_db = (Supplier_not_locked, unlocked_db)
   \<and> riordini_accettazione open_db 7 = Some marble_acc
   \<and> q_parziale_of (Some ''0'') None \<le> 0
   \<and> fst (receive ''2025-04-01 10:00:00'' 7 (Some ''0'') None (dock 7 0) open_db) \<in> {Supplier_not_locked, Qty_not_positive}
   \<and> snd (receive ''2025-04-01 10:00:00'' 7 (Some ''0'') None (dock 7 0) open_db) = open_db
   \<and> q_parziale_of (Some ''9'') None > q_totale_of marble_acc - q_ricevuta_of marble_acc
   \<and> fst (receive ''2025-04-01 10:00:00'' 7 (Some ''9'') None (dock 7 9) open_db) = Qty_over_residual
   \<and> snd (receive ''2025-04-01 10:00:00'' 7 (Some ''9'') None (dock 7 9) open_db) = open_db"
proof -
  have u: "riordini_accettazione unlocked_db 7 = Some marble_acc" by (simp add: unlocked_db_def)
  have o: "riordini_accettazione open_db 7 = Some marble_acc" by (simp add: open_db_def)
  have code: "str_or_empty (acc_numero_ordine marble_acc) \<noteq> []" by code_simp
  have unl: "\<not> supplier_locked unlocked_db (str_or_empty (acc_numero_ordine marble_acc))" by code_simp
  have q0: "q_parziale_of (Some ''0'') None \<le> 0" by code_simp
  have q9: "q_parziale_of (Some ''9'') None > q_totale_of marble_acc - q_ricevuta_of marble_acc"
    by code_simp
  have out9: "fst (receive ''2025-04-01 10:00:00'' 7 (Some ''9'') None (dock 7 9) open_db) = Qty_over_residual"
    by code_simp
  note a = receive_refusals [OF u, of "''2025-04-01 10:00:00''" "Some ''3''" None "dock 7 3"]
  note b = receive_refusals [OF o, of "''2025-04-01 10:00:00''" "Some ''0''" None "dock 7 0"]
  note c = receive_refusals [OF o, of "''2025-04-01 10:00:00''" "Some ''9''" None "dock 7 9"]
  from a code unl
  have r1: "receive ''2025-04-01 10:00:00'' 7 (Some ''3'') None (dock 7 3) unlocked_db = (Supplier_not_locked, unlocked_db)"
    by blast
  from b q0
  have r2: "fst (receive ''2025-04-01 10:00:00'' 7 (Some ''0'') None (dock 7 0) open_db) \<in> {Supplier_not_locked, Qty_not_positive}"
    and r3: "snd (receive ''2025-04-01 10:00:00'' 7 (Some ''0'') None (dock 7 0) open_db) = open_db"
    by blast+
  from c q9
  have r4: "snd (receive ''2025-04-01 10:00:00'' 7 (Some ''9'') None (dock 7 9) open_db) = open_db"
    by blast
  show ?thesis by (intro conjI u code unl r1 o q0 r2 r3 q9 out9 r4)
qed

text \<open>
  Claim C4 as stated fails on a manual order: the row has no order code, no supplier is
  locked for any order, and a receipt of 2 out of 5 is accepted, raises the received
  quantity to 2 and appends an event of 2 to the history.
\<close>

theorem receive_manual_order_counterexample:
  "acc_numero_ordine manual_acc = None
   \<and> riordini_accettazione manual_db 3 = Some manual_acc
   \<and> ordine_fornitori manual_db = Map.empty
   \<and> \<not> supplier_locked manual_db (str_or_empty (acc_numero_ordine manual_acc))
   \<and> fst (receive ''2025-06-01 09:00:00'' 3 (Some ''2'') None (yard 3 2) manual_db) = Redirect_add 3 2
   \<and> map_option q_ricevuta_of
        (riordini_accettazione (snd (receive ''2025-06-01 09:00:00'' 3 (Some ''2'') None (yard 3 2) manual_db)) 3)
      = Some 2
   \<and> map se_quantita
        (riordini_effettuati (snd (receive ''2025-06-01 09:00:00'' 3 (Some ''2'') None (yard 3 2) manual_db)))
      = [2]"
proof -
  have a: "acc_numero_ordine manual_acc = None" by (simp add: manual_acc_def)
  have b: "riordini_accettazione manual_db 3 = Some manual_acc" by (simp add: manual_db_def)
  have c: "ordine_fornitori manual_db = Map.empty" by (simp add: manual_db_def)
  have d: "\<not> supplier_locked manual_db (str_or_empty (acc_numero_ordine manual_acc))" by code_simp
  have e: "fst (receive ''2025-06-01 09:00:00'' 3 (Some ''2'') None (yard 3 2) manual_db) = Redirect_add 3 2"
    by code_simp
  have f: "map_option q_ricevuta_of
        (riordini_accettazione (snd (receive ''2025-06-01 09:00:00'' 3 (Some ''2'') None (yard 3 2) manual_db)) 3)
      = Some 2"
    by code_simp
  have g: "map se_quantita
        (riordini_effettuati (snd (receive ''2025-06-01 09:00:00'' 3 (Some ''2'') None (yard 3 2) manual_db)))
      = [2]"
    by code_simp
  show ?thesis by (intro conjI a b c d e f g)
qed

text \<open>
  Claim C10.  When the order code of the row is \<^verbatim>\<open>NULL\<close> or empty, the outcome of
  \<^verbatim>\<open>accettazione_update\<close> is decided by the quantity and the residual alone, whatever the
  table of order suppliers holds; with that table empty, a quantity within the residual is
  sent on to \<^verbatim>\<open>/add\<close>, and the form that carries the id of the row and that quantity,
  once \<^verbatim>\<open>/add\<close> completes it, logs the receipt.
\<close>

theorem accettazione_update_without_order_code:
  assumes "riordini_accettazione s i = Some row"
    and "acc_numero_ordine row = None \<or> acc_numero_ordine row = Some []"
  shows "accettazione_update s i qa qp =
           (if q_parziale_of qa qp \<le> 0 then (Qty_not_positive, s)
            else if q_parziale_of qa qp > q_totale_of row - q_ricevuta_of row then (Qty_over_residual, s)
            else (Redirect_add i (q_parziale_of qa qp), s))
       \<and> fst (accettazione_update (s\<lparr>ordine_fornitori := t\<rparr>) i qa qp) = fst (accettazione_update s i qa qp)
       \<and> (0 < q_parziale_of qa qp \<and> q_parziale_of qa qp \<le> q_totale_of row - q_ricevuta_of row \<longrightarrow>
            fst (receive now_str i qa qp g (s\<lparr>ordine_fornitori := Map.empty\<rparr>)) =
              Redirect_add i (q_parziale_of qa qp)
            \<and> (f_acc_id g = Some (py_str i) \<and> f_quantita g = Some (py_str (q_parziale_of qa qp))
                 \<and> fst (add now_str g (s\<lparr>ordine_fornitori := Map.empty\<rparr>)) = Add_done \<longrightarrow>
               map se_quantita (riordini_effettuati
                 (snd (receive now_str i qa qp g (s\<lparr>ordine_fornitori := Map.empty\<rparr>)))) =
               map se_quantita (riordini_effettuati s) @ [q_parziale_of qa qp]))"
proof -
  let ?s0 = "s\<lparr>ordine_fornitori := Map.empty\<rparr>"
  from assms(2) have nocode: "str_or_empty (acc_numero_ordine row) = []"
    by (auto simp: str_or_empty_def)
  have one: "accettazione_update s i qa qp =
           (if q_parziale_of qa qp \<le> 0 then (Qty_not_positive, s)
            else if q_parziale_of qa qp > q_totale_of row - q_ricevuta_of row then (Qty_over_residual, s)
            else (Redirect_add i (q_parziale_of qa qp), s))"
    using assms(1) nocode by (simp add: accettazione_update_eq)
  have two: "fst (accettazione_update (s\<lparr>ordine_fornitori := t\<rparr>) i qa qp) = fst (accettazione_update s i qa qp)"
    using assms(1) nocode by (simp add: accettazione_update_eq)
  have row': "riordini_accettazione ?s0 i = Some row"
    using assms(1) by simp
  have rec: "receive now_str i qa qp g ?s0 =
               (Redirect_add i (q_parziale_of qa qp), snd (add now_str g ?s0))"
    if pos: "0 < q_parziale_of qa qp" and res: "q_parziale_of qa qp \<le> q_totale_of row - q_ricevuta_of row"
    using row' nocode pos res by (simp add: receive_eq)
  have three: "fst (receive now_str i qa qp g ?s0) = Redirect_add i (q_parziale_of qa qp)"
    if pos: "0 < q_parziale_of qa qp" and res: "q_parziale_of qa qp \<le> q_totale_of row - q_ricevuta_of row"
    using rec [OF that] by simp
  have four: "map se_quantita (riordini_effettuati (snd (receive now_str i qa qp g ?s0))) =
               map se_quantita (riordini_effettuati s) @ [q_parziale_of qa qp]"
    if pos: "0 < q_parziale_of qa qp" and res: "q_parziale_of qa qp \<le> q_totale_of row - q_ricevuta_of row"
      and id: "f_acc_id g = Some (py_str i)"
      and qty: "f_quantita g = Some (py_str (q_parziale_of qa qp))"
      and fin: "fst (add now_str g ?s0) = Add_done"
  proof -
    have "snd (receive now_str i qa qp g ?s0) = add_accettazione now_str g ?s0"
      using rec [OF pos res] add_done [OF fin] by simp
    then show ?thesis
      using add_accettazione_logs [OF row' id qty pos, of now_str] by simp
  qed
  from one two three four show ?thesis by blast
qed

text \<open>
  Claim C10 on the manual order of 5 with a request of 2, which the prefilled form of
  \<^verbatim>\<open>/add\<close> then logs.
\<close>

theorem accettazione_update_without_order_code_witness:
  "riordini_accettazione manual_db 3 = Some manual_acc
   \<and> acc_numero_ordine manual_acc = None
   \<and> 0 < q_parziale_of (Some ''2'') None
   \<and> q_parziale_of (Some ''2'') None \<le> q_totale_of manual_acc - q_ricevuta_of manual_acc
   \<and> accettazione_update manual_db 3 (Some ''2'') None = (Redirect_add 3 2, manual_db)
   \<and> f_acc_id (yard 3 2) = Some (py_str 3)
   \<and> f_quantita (yard 3 2) = Some (py_str (q_parziale_of (Some ''2'') None))
   \<and> fst (add ''2025-06-01 09:00:00'' (yard 3 2) (manual_db\<lparr>ordine_fornitori := Map.empty\<rparr>)) = Add_done
   \<and> map se_quantita (riordini_effettuati
        (snd (receive ''2025-06-01 09:00:00'' 3 (Some ''2'') None (yard 3 2)
               (manual_db\<lparr>ordine_fornitori := Map.empty\<rparr>)))) =
      map se_quantita (riordini_effettuati manual_db) @ [2]"
proof -
  have b: "riordini_accettazione manual_db 3 = Some manual_acc" by (simp add: manual_db_def)
  have a: "acc_numero_ordine manual_acc = None" by (simp add: manual_acc_def)
  have q: "q_parziale_of (Some ''2'') None = 2" by code_simp
  have res: "q_totale_of manual_acc - q_ricevuta_of manual_acc = 5" by code_simp
  have id: "f_acc_id (yard 3 2) = Some (py_str 3)" by (simp add: yard_def dock_def)
  have qty: "f_quantita (yard 3 2) = Some (py_str (q_parziale_of (Some ''2'') None))"
    by (simp add: yard_def dock_def q)
  have fin: "fst (add ''2025-06-01 09:00:00'' (yard 3 2) (manual_db\<lparr>ordine_fornitori := Map.empty\<rparr>)) = Add_done"
    by code_simp
  note t = accettazione_update_without_order_code
    [OF b disjI1 [OF a], of "Some ''2''" None _ "''2025-06-01 09:00:00''" "yard 3 2"]
  from t have upd: "accettazione_update manual_db 3 (Some ''2'') None = (Redirect_add 3 2, manual_db)"
    by (simp add: q res)
  from t id qty fin
  have logged: "map se_quantita (riordini_effettuati
        (snd (receive ''2025-06-01 09:00:00'' 3 (Some ''2'') None (yard 3 2)
               (manual_db\<lparr>ordine_fornitori := Map.empty\<rparr>)))) =
      map se_quantita (riordini_effettuati manual_db) @ [2]"
    by (simp add: q res)
  have pos: "0 < q_parziale_of (Some ''2'') None" by (simp add: q)
  have le: "q_parziale_of (Some ''2'') None \<le> q_totale_of manual_acc - q_ricevuta_of manual_acc"
    by (simp add: q res)
  show ?thesis by (intro conjI b a pos le upd id qty fin logged)
qed

text \<open>
  Claim C5 against the code.  The quantity of a receipt is compared with the residual only
  by \<^verbatim>\<open>accettazione_update\<close>, which writes nothing; \<^verbatim>\<open>/add\<close>, the only writer of
  \<^verbatim>\<open>quantita_ricevuta\<close>, takes the quantity of its own form.  On the delivery of 8 with
  nothing received, \<^verbatim>\<open>accettazione_update\<close> refuses 20, yet the form of \<^verbatim>\<open>/add\<close> with the
  id of the row and the quantity 20 is completed: at the commit of line 4380 the row
  exists with 20 received out of 8, then it is deleted, and the history holds an
  \<^verbatim>\<open>accettazione\<close> event of 20.  Moreover \<^verbatim>\<open>/add\<close> with \<^verbatim>\<open>nuovo_ordine\<close> and the quantity
  0 creates a row whose received quantity equals its total of 0; the row is not deleted,
  and a later form with the quantity 5 leaves it in the table with 5 received out of 0.
\<close>

theorem add_over_receipt:
  "riordini_accettazione open_db 7 = Some marble_acc
   \<and> q_totale_of marble_acc = 8 \<and> q_ricevuta_of marble_acc = 0
   \<and> accettazione_update open_db 7 (Some ''20'') None = (Qty_over_residual, open_db)
   \<and> fst (add ''2025-04-01 10:00:00'' (dock 7 20) open_db) = Add_done
   \<and> map_option (\<lambda>row. (q_ricevuta_of row, q_totale_of row))
        (riordini_accettazione
           (snd (add_accettazione_commit ''2025-04-01 10:00:00'' (dock 7 20) open_db)) 7)
      = Some (20, 8)
   \<and> riordini_accettazione (snd (add ''2025-04-01 10:00:00'' (dock 7 20) open_db)) 7 = None
   \<and> map se_quantita (riordini_effettuati (snd (add ''2025-04-01 10:00:00'' (dock 7 20) open_db)))
      = [12, 20]
   \<and> fst (add ''2025-05-10 11:00:00'' zero_order manual_db) = Add_new_order
   \<and> map_option (\<lambda>row. (q_ricevuta_of row, q_totale_of row))
        (riordini_accettazione (snd (add ''2025-05-10 11:00:00'' zero_order manual_db)) 4)
      = Some (0, 0)
   \<and> map_option (\<lambda>row. (q_ricevuta_of row, q_totale_of row))
        (riordini_accettazione
           (snd (add ''2025-06-01 09:00:00'' (yard 4 5)
                   (snd (add ''2025-05-10 11:00:00'' zero_order manual_db)))) 4)
      = Some (5, 0)"
proof -
  have a: "riordini_accettazione open_db 7 = Some marble_acc" by (simp add: open_db_def)
  have b: "q_totale_of marble_acc = 8" and c: "q_ricevuta_of marble_acc = 0" by code_simp+
  have d1: "fst (accettazione_update open_db 7 (Some ''20'') None) = Qty_over_residual" by code_simp
  have d: "accettazione_update open_db 7 (Some ''20'') None = (Qty_over_residual, open_db)"
    using d1 a by (simp add: accettazione_update_eq split: if_splits)
  have e: "fst (add ''2025-04-01 10:00:00'' (dock 7 20) open_db) = Add_done" by code_simp
  have f: "map_option (\<lambda>row. (q_ricevuta_of row, q_totale_of row))
        (riordini_accettazione
           (snd (add_accettazione_commit ''2025-04-01 10:00:00'' (dock 7 20) open_db)) 7)
      = Some (20, 8)" by code_simp
  have g: "riordini_accettazione (snd (add ''2025-04-01 10:00:00'' (dock 7 20) open_db)) 7 = None"
    by code_simp
  have h: "map se_quantita (riordini_effettuati (snd (add ''2025-04-01 10:00:00'' (dock 7 20) open_db)))
      = [12, 20]" by code_simp
  have i: "fst (add ''2025-05-10 11:00:00'' zero_order manual_db) = Add_new_order" by code_simp
  have j: "map_option (\<lambda>row. (q_ricevuta_of row, q_totale_of row))
        (riordini_accettazione (snd (add ''2025-05-10 11:00:00'' zero_order manual_db)) 4)
      = Some (0, 0)" by code_simp
  have k: "map_option (\<lambda>row. (q_ricevuta_of row, q_totale_of row))
        (riordini_accettazione
           (snd (add ''2025-06-01 09:00:00'' (yard 4 5)
                   (snd (add ''2025-05-10 11:00:00'' zero_order manual_db)))) 4)
      = Some (5, 0)" by code_simp
  show ?thesis by (intro conjI a b c d e f g h i j k)
qed

text \<open>
  What does hold of \<^verbatim>\<open>/add\<close>, the writer of the received quantity, for every request.
\<close>

lemma add_outcomes:
  "snd (add now_str g s) = s
   \<or> (fst (add now_str g s) = Add_new_order
       \<and> snd (add now_str g s) =
           s\<lparr>riordini_accettazione := (riordini_accettazione s)(r_new_id g \<mapsto> nuovo_ordine_row now_str g)\<rparr>)
   \<or> (fst (add now_str g s) = Add_done \<and> snd (add now_str g s) = add_accettazione now_str g s)"
  by (simp add: add_def)

lemma add_accettazione_monotone:
  assumes "riordini_accettazione s i = Some row"
  shows "case riordini_accettazione (add_accettazione now_str g s) i of
           None \<Rightarrow> True
         | Some row' \<Rightarrow> q_ricevuta_of row \<le> q_ricevuta_of row'"
proof (cases "add_accettazione_commit now_str g s")
  case (Pair r s1)
  show ?thesis
  proof (cases r)
    case None
    with Pair have "s1 = s"
      by (auto simp: add_accettazione_commit_def Let_def split: if_splits option.splits)
    with Pair None assms show ?thesis by (simp add: add_accettazione_def)
  next
    case (Some t)
    obtain j q_totale q_ricevuta where t: "t = (j, q_totale, q_ricevuta)" by (cases t)
    have mono: "case riordini_accettazione s1 i of
           None \<Rightarrow> True
         | Some row' \<Rightarrow> q_ricevuta_of row \<le> q_ricevuta_of row'"
      using Pair Some assms
      by (auto simp: add_accettazione_commit_def Let_def q_ricevuta_of_def int_or_zero_def
          split: if_splits option.splits)
    show ?thesis
      using Pair Some t mono by (auto simp: add_accettazione_def split: option.splits)
  qed
qed

lemma add_accettazione_history:
  "riordini_effettuati (add_accettazione now_str g s) = riordini_effettuati s
   \<or> (\<exists>ev. riordini_effettuati (add_accettazione now_str g s) = riordini_effettuati s @ [ev]
           \<and> se_tipo_evento ev = ''accettazione''
           \<and> se_quantita ev = accepted_qty_of g \<and> 0 < accepted_qty_of g)"
  by (auto simp: add_accettazione_def add_accettazione_commit_def Let_def
      split: if_splits option.splits)

lemma add_accettazione_closed:
  assumes "riordini_accettazione s i = Some row" and "f_acc_id g = Some (py_str i)"
  shows "(riordini_accettazione (add_accettazione now_str g s) i = None) =
           (let q_totale = (case new_total_val_of g of None \<Rightarrow> q_totale_of row | Some nt \<Rightarrow> nt);
                q_ricevuta = (if 0 < accepted_qty_of g then q_ricevuta_of row + accepted_qty_of g
                              else q_ricevuta_of row)
            in 0 < q_totale \<and> q_totale \<le> q_ricevuta)"
  using assms
  by (auto simp: add_accettazione_def add_accettazione_commit_def Let_def str_or_empty_def
      py_str_nonempty py_int_py_str q_totale_of_def q_ricevuta_of_def split: option.splits)

text \<open>
  Property X1.  For every \<^verbatim>\<open>POST\<close> to \<^verbatim>\<open>/add\<close> (a new order gets an id that is not in
  the table): the received quantity of an existing row does not decrease; the history is
  left as it was or grows by exactly one \<^verbatim>\<open>accettazione\<close> event, which carries the
  positive quantity of the form; and when the request is completed on the row whose id the
  form carries, the row is deleted exactly when its total (the new total of the form when
  there is one) is positive and the received quantity, raised by the quantity of the form,
  has reached or passed it.
\<close>

theorem add_received_monotone:
  assumes "riordini_accettazione s i = Some row"
    and "riordini_accettazione s (r_new_id g) = None"
  shows "(case riordini_accettazione (snd (add now_str g s)) i of
            None \<Rightarrow> True
          | Some row' \<Rightarrow> q_ricevuta_of row \<le> q_ricevuta_of row')
       \<and> (riordini_effettuati (snd (add now_str g s)) = riordini_effettuati s
          \<or> (\<exists>ev. riordini_effettuati (snd (add now_str g s)) = riordini_effettuati s @ [ev]
                  \<and> se_tipo_evento ev = ''accettazione''
                  \<and> se_quantita ev = accepted_qty_of g \<and> 0 < accepted_qty_of g))
       \<and> (fst (add now_str g s) = Add_done \<and> f_acc_id g = Some (py_str i) \<longrightarrow>
            (riordini_accettazione (snd (add now_str g s)) i = None) =
              (let q_totale = (case new_total_val_of g of None \<Rightarrow> q_totale_of row | Some nt \<Rightarrow> nt);
                   q_ricevuta = (if 0 < accepted_qty_of g then q_ricevuta_of row + accepted_qty_of g
                                 else q_ricevuta_of row)
               in 0 < q_totale \<and> q_totale \<le> q_ricevuta))"
proof -
  from assms have ne: "r_new_id g \<noteq> i" by auto
  have one: "case riordini_accettazione (snd (add now_str g s)) i of
            None \<Rightarrow> True
          | Some row' \<Rightarrow> q_ricevuta_of row \<le> q_ricevuta_of row'"
    using add_outcomes [of now_str g s] add_accettazione_monotone [OF assms(1), of now_str g]
      assms(1) ne
    by (elim disjE) auto
  have two: "riordini_effettuati (snd (add now_str g s)) = riordini_effettuati s
          \<or> (\<exists>ev. riordini_effettuati (snd (add now_str g s)) = riordini_effettuati s @ [ev]
                  \<and> se_tipo_evento ev = ''accettazione''
                  \<and> se_quantita ev = accepted_qty_of g \<and> 0 < accepted_qty_of g)"
    using add_outcomes [of now_str g s] add_accettazione_history [of now_str g s]
    by (elim disjE) auto
  have three: "(riordini_accettazione (snd (add now_str g s)) i = None) =
              (let q_totale = (case new_total_val_of g of None \<Rightarrow> q_totale_of row | Some nt \<Rightarrow> nt);
                   q_ricevuta = (if 0 < accepted_qty_of g then q_ricevuta_of row + accepted_qty_of g
                                 else q_ricevuta_of row)
               in 0 < q_totale \<and> q_totale \<le> q_ricevuta)"
    if "fst (add now_str g s) = Add_done" and "f_acc_id g = Some (py_str i)"
    using add_done [OF that(1)] add_accettazione_closed [OF assms(1) that(2), of now_str]
    by simp
  from one two three show ?thesis by blast
qed

text \<open>
  Property X1 on the delivery of 8: a receipt of 3 leaves the row with 3 received and logs
  3; a further receipt of 5 deletes the row.
\<close>

theorem add_received_monotone_witness:
  "riordini_accettazione open_db 7 = Some marble_acc
   \<and> riordini_accettazione open_db (r_new_id (dock 7 3)) = None
   \<and> fst (add ''2025-04-01 10:00:00'' (dock 7 3) open_db) = Add_done
   \<and> f_acc_id (dock 7 3) = Some (py_str 7)
   \<and> map_option q_ricevuta_of
        (riordini_accettazione (snd (add ''2025-04-01 10:00:00'' (dock 7 3) open_db)) 7) = Some 3
   \<and> map se_quantita (riordini_effettuati (snd (add ''2025-04-01 10:00:00'' (dock 7 3) open_db)))
      = [12, 3]
   \<and> riordini_accettazione (snd (add ''2025-04-01 10:00:00'' (dock 7 3) open_db)) 7 \<noteq> None
   \<and> riordini_accettazione (snd (add ''2025-04-02 10:00:00'' (dock 7 5)
        (snd (add ''2025-04-01 10:00:00'' (dock 7 3) open_db)))) 7 = None"
proof -
  have a: "riordini_accettazione open_db 7 = Some marble_acc" by (simp add: open_db_def)
  have b: "riordini_accettazione open_db (r_new_id (dock 7 3)) = None"
    by (simp add: open_db_def dock_def)
  have c: "fst (add ''2025-04-01 10:00:00'' (dock 7 3) open_db) = Add_done" by code_simp
  have d: "f_acc_id (dock 7 3) = Some (py_str 7)" by (simp add: dock_def)
  have e: "map_option q_ricevuta_of
        (riordini_accettazione (snd (add ''2025-04-01 10:00:00'' (dock 7 3) open_db)) 7) = Some 3"
    by code_simp
  have f: "map se_quantita (riordini_effettuati (snd (add ''2025-04-01 10:00:00'' (dock 7 3) open_db)))
      = [12, 3]" by code_simp
  have q: "accepted_qty_of (dock 7 3) = 3" and n: "new_total_val_of (dock 7 3) = None"
    and t: "q_totale_of marble_acc = 8" and r: "q_ricevuta_of marble_acc = 0"
    by code_simp+
  from add_received_monotone [OF a b, of "''2025-04-01 10:00:00''"] c d
  have g: "riordini_accettazione (snd (add ''2025-04-01 10:00:00'' (dock 7 3) open_db)) 7 \<noteq> None"
    by (simp add: q n t r)
  have h: "riordini_accettazione (snd (add ''2025-04-02 10:00:00'' (dock 7 5)
        (snd (add ''2025-04-01 10:00:00'' (dock 7 3) open_db)))) 7 = None"
    by code_simp
  show ?thesis by (intro conjI a b c d e f g h)
qed

subsection \<open>Locks\<close>

lemma set_fornitore_locked:
  assumes "forn_lock_set s (py_strip (str_or_empty n))"
  shows "set_fornitore_ordine s n f =
           (if py_strip (str_or_empty n) = [] \<or> py_strip (str_or_empty f) = []
            then (Lock_error 400 Dati_mancanti, s) else (Lock_error 400 Gia_confermato, s))"
  using assms
  by (auto simp: set_fornitore_ordine_def forn_lock_set_def Let_def split: option.splits)

lemma set_produttore_locked:
  assumes "prod_lock_set s (py_strip (str_or_empty n))"
  shows "set_produttore_ordine s n p =
           (if py_strip (str_or_empty n) = [] \<or> py_strip (str_or_empty p) = []
            then (Lock_error 400 Dati_mancanti, s) else (Lock_error 400 Gia_confermato, s))"
  using assms
  by (auto simp: set_produttore_ordine_def prod_lock_set_def Let_def split: option.splits)

lemma set_fornitore_ok:
  assumes "fst (set_fornitore_ordine s n f) = Lock_ok"
  shows "forn_lock_set (snd (set_fornitore_ordine s n f)) (py_strip (str_or_empty n))"
    and "map_option fornitore_scelto
           (ordine_fornitori (snd (set_fornitore_ordine s n f)) (py_strip (str_or_empty n))) =
         Some (Some (py_strip (str_or_empty f)))"
    and "py_strip (str_or_empty n) \<noteq> []"
  using assms
  by (auto simp: set_fornitore_ordine_def forn_lock_set_def Let_def update_where_def
      insert_or_ignore_def truthy_int_def split: option.splits if_splits)

lemma set_produttore_ok:
  assumes "fst (set_produttore_ordine s n p) = Lock_ok"
  shows "prod_lock_set (snd (set_produttore_ordine s n p)) (py_strip (str_or_empty n))"
    and "map_option produttore_scelto
           (ordine_produttori (snd (set_produttore_ordine s n p)) (py_strip (str_or_empty n))) =
         Some (Some (py_strip (str_or_empty p)))"
    and "py_strip (str_or_empty n) \<noteq> []"
  using assms
  by (auto simp: set_produttore_ordine_def prod_lock_set_def Let_def update_where_def
      insert_or_ignore_def truthy_int_def split: option.splits if_splits)

text \<open>
  Claim C8.  When the lock flag of an order code is set, \<^verbatim>\<open>set_fornitore_ordine\<close> fails
  and changes no table, with the error \<^verbatim>\<open>gia confermato\<close> (HTTP 400) when both fields of
  the request are given; so a second attempt after a successful one fails and the chosen
  supplier stays the one of the first attempt.  The same holds for
  \<^verbatim>\<open>set_produttore_ordine\<close> and the producer.
\<close>

theorem lock_is_one_time:
  "(forn_lock_set s (py_strip (str_or_empty n)) \<longrightarrow>
      snd (set_fornitore_ordine s n f) = s
      \<and> fst (set_fornitore_ordine s n f) \<noteq> Lock_ok
      \<and> (py_strip (str_or_empty n) \<noteq> [] \<and> py_strip (str_or_empty f) \<noteq> [] \<longrightarrow>
           fst (set_fornitore_ordine s n f) = Lock_error 400 Gia_confermato))
   \<and> (prod_lock_set s (py_strip (str_or_empty n)) \<longrightarrow>
      snd (set_produttore_ordine s n p) = s
      \<and> fst (set_produttore_ordine s n p) \<noteq> Lock_ok
      \<and> (py_strip (str_or_empty n) \<noteq> [] \<and> py_strip (str_or_empty p) \<noteq> [] \<longrightarrow>
           fst (set_produttore_ordine s n p) = Lock_error 400 Gia_confermato))
   \<and> (fst (set_fornitore_ordine s n f) = Lock_ok \<and> py_strip (str_or_empty f') \<noteq> [] \<longrightarrow>
        set_fornitore_ordine (snd (set_fornitore_ordine s n f)) n f' =
          (Lock_error 400 Gia_confermato, snd (set_fornitore_ordine s n f))
        \<and> map_option fornitore_scelto
            (ordine_fornitori (snd (set_fornitore_ordine s n f)) (py_strip (str_or_empty n))) =
           Some (Some (py_strip (str_or_empty f))))
   \<and> (fst (set_produttore_ordine s n p) = Lock_ok \<and> py_strip (str_or_empty p') \<noteq> [] \<longrightarrow>
        set_produttore_ordine (snd (set_produttore_ordine s n p)) n p' =
          (Lock_error 400 Gia_confermato, snd (set_produttore_ordine s n p))
        \<and> map_option produttore_scelto
            (ordine_produttori (snd (set_produttore_ordine s n p)) (py_strip (str_or_empty n))) =
           Some (Some (py_strip (str_or_empty p))))"
proof -
  have a: "snd (set_fornitore_ordine s n f) = s
      \<and> fst (set_fornitore_ordine s n f) \<noteq> Lock_ok
      \<and> (py_strip (str_or_empty n) \<noteq> [] \<and> py_strip (str_or_empty f) \<noteq> [] \<longrightarrow>
           fst (set_fornitore_ordine s n f) = Lock_error 400 Gia_confermato)"
    if "forn_lock_set s (py_strip (str_or_empty n))"
    by (simp add: set_fornitore_locked [OF that])
  have b: "snd (set_produttore_ordine s n p) = s
      \<and> fst (set_produttore_ordine s n p) \<noteq> Lock_ok
      \<and> (py_strip (str_or_empty n) \<noteq> [] \<and> py_strip (str_or_empty p) \<noteq> [] \<longrightarrow>
           fst (set_produttore_ordine s n p) = Lock_error 400 Gia_confermato)"
    if "prod_lock_set s (py_strip (str_or_empty n))"
    by (simp add: set_produttore_locked [OF that])
  have c: "set_fornitore_ordine (snd (set_fornitore_ordine s n f)) n f' =
          (Lock_error 400 Gia_confermato, snd (set_fornitore_ordine s n f))
        \<and> map_option fornitore_scelto
            (ordine_fornitori (snd (set_fornitore_ordine s n f)) (py_strip (str_or_empty n))) =
           Some (Some (py_strip (str_or_empty f)))"
    if ok: "fst (set_fornitore_ordine s n f) = Lock_ok" and f': "py_strip (str_or_empty f') \<noteq> []"
    using set_fornitore_ok [OF ok] f'
    by (simp add: set_fornitore_locked)
  have d: "set_produttore_ordine (snd (set_produttore_ordine s n p)) n p' =
          (Lock_error 400 Gia_confermato, snd (set_produttore_ordine s n p))
        \<and> map_option produttore_scelto
            (ordine_produttori (snd (set_produttore_ordine s n p)) (py_strip (str_or_empty n))) =
           Some (Some (py_strip (str_or_empty p)))"
    if ok: "fst (set_produttore_ordine s n p) = Lock_ok" and p': "py_strip (str_or_empty p') \<noteq> []"
    using set_produttore_ok [OF ok] p'
    by (simp add: set_produttore_locked)
  from a b c d show ?thesis by blast
qed

text \<open>
  Claim C8 on the order TM2025/0001: its supplier is locked, so naming another supplier
  fails; its producer is set once, and naming another producer then fails and keeps the
  first.
\<close>

theorem lock_is_one_time_witness:
  "forn_lock_set open_db (py_strip (str_or_empty (Some ''TM2025/0001'')))
   \<and> py_strip (str_or_empty (Some ''TM2025/0001'')) \<noteq> []
   \<and> py_strip (str_or_empty (Some ''Stone Srl'')) \<noteq> []
   \<and> set_fornitore_ordine open_db (Some ''TM2025/0001'') (Some ''Stone Srl'') =
       (Lock_error 400 Gia_confermato, open_db)
   \<and> fst (set_produttore_ordine open_db (Some ''TM2025/0001'') (Some ''Acme '')) = Lock_ok
   \<and> py_strip (str_or_empty (Some ''Other'')) \<noteq> []
   \<and> set_produttore_ordine (snd (set_produttore_ordine open_db (Some ''TM2025/0001'') (Some ''Acme '')))
        (Some ''TM2025/0001'') (Some ''Other'') =
       (Lock_error 400 Gia_confermato, snd (set_produttore_ordine open_db (Some ''TM2025/0001'') (Some ''Acme '')))
   \<and> map_option produttore_scelto
        (ordine_produttori (snd (set_produttore_ordine open_db (Some ''TM2025/0001'') (Some ''Acme '')))
           ''TM2025/0001'') = Some (Some ''Acme'')"
proof -
  have l: "forn_lock_set open_db (py_strip (str_or_empty (Some ''TM2025/0001'')))" by code_simp
  have n: "py_strip (str_or_empty (Some ''TM2025/0001'')) \<noteq> []" by code_simp
  have f: "py_strip (str_or_empty (Some ''Stone Srl'')) \<noteq> []" by code_simp
  have o: "py_strip (str_or_empty (Some ''Other'')) \<noteq> []" by code_simp
  have ok: "fst (set_produttore_ordine open_db (Some ''TM2025/0001'') (Some ''Acme '')) = Lock_ok"
    by code_simp
  have nn: "py_strip (str_or_empty (Some ''TM2025/0001'')) = ''TM2025/0001''" by code_simp
  have pp: "py_strip (str_or_empty (Some ''Acme '')) = ''Acme''" by code_simp
  note t = lock_is_one_time [of open_db "Some ''TM2025/0001''" "Some ''Stone Srl''" "Some ''Acme ''" _ "Some ''Other''"]
  from t l n f
  have r1: "set_fornitore_ordine open_db (Some ''TM2025/0001'') (Some ''Stone Srl'') =
       (Lock_error 400 Gia_confermato, open_db)"
    by (metis prod.collapse)
  from t ok o
  have r2: "set_produttore_ordine (snd (set_produttore_ordine open_db (Some ''TM2025/0001'') (Some ''Acme '')))
        (Some ''TM2025/0001'') (Some ''Other'') =
       (Lock_error 400 Gia_confermato, snd (set_produttore_ordine open_db (Some ''TM2025/0001'') (Some ''Acme '')))"
    and r3: "map_option produttore_scelto
        (ordine_produttori (snd (set_produttore_ordine open_db (Some ''TM2025/0001'') (Some ''Acme '')))
           (py_strip (str_or_empty (Some ''TM2025/0001'')))) = Some (Some (py_strip (str_or_empty (Some ''Acme ''))))"
    by blast+
  from r3 have r3': "map_option produttore_scelto
        (ordine_produttori (snd (set_produttore_ordine open_db (Some ''TM2025/0001'') (Some ''Acme '')))
           ''TM2025/0001'') = Some (Some ''Acme'')"
    by (simp only: nn pp)
  show ?thesis by (intro conjI l n f r1 ok o r2 r3')
qed

subsection \<open>Shortage detection and threshold rules\<close>

lemma riordini_loop_rows:
  assumes "r \<in> set (riordini_loop env seen_combos catalog_rows)"
  shows "th_val_of env (rr_combo r) \<noteq> 0
       \<and> rr_combo r \<notin> active_keys env
       \<and> rr_quantita_totale r = giacenza env (rr_combo r)
       \<and> giacenza env (rr_combo r) \<le> th_val_of env (rr_combo r)
       \<and> rr_riordino_qty r =
           riordino_qty (giacenza env (rr_combo r)) (th_val_of env (rr_combo r))
             (rq_manual_of env (rr_combo r))"
  using assms
proof (induction catalog_rows arbitrary: seen_combos)
  case Nil
  then show ?case by simp
next
  case (Cons row catalog_rows)
  let ?k = "combo_key row"
  from Cons.prems have
    "r \<in> set (riordini_loop env seen_combos catalog_rows)
     \<or> r \<in> set (riordini_loop env (?k # seen_combos) catalog_rows)
     \<or> (?k \<notin> active_keys env \<and> th_val_of env ?k \<noteq> 0 \<and> giacenza env ?k \<le> th_val_of env ?k
        \<and> r = \<lparr>rr_combo = ?k, rr_quantita_totale = giacenza env ?k,
                 rr_riordino_qty = riordino_qty (giacenza env ?k) (th_val_of env ?k) (rq_manual_of env ?k)\<rparr>)"
    by (auto split: if_splits)
  then show ?case
    using Cons.IH [of seen_combos] Cons.IH [of "?k # seen_combos"] by auto
qed

lemma th_val_of_giacenza: "th_val_of (env\<lparr>giacenza := st\<rparr>) k = th_val_of env k"
  by (simp add: th_val_of_def split: option.splits prod.splits)

lemma riordino_qty_flagged:
  assumes "total_qty \<le> th_val"
  shows "riordino_qty total_qty th_val
           (case R of None \<Rightarrow> None | Some r \<Rightarrow> if r \<le> 0 then None else Some r) =
         Some (suggest_spec total_qty th_val R)"
  using assms by (cases R) (auto simp: riordino_qty_def suggest_spec_def)

text \<open>
  Claim C6.  A combination whose applicable threshold (extended rule, else legacy rule,
  else default) is 0 is in no row of the reorder list, whatever the stock.
\<close>

theorem threshold_zero_never_listed:
  "th_val_of env k = 0 \<longrightarrow>
     k \<notin> rr_combo ` set (reorder_rows (env\<lparr>giacenza := st\<rparr>) catalog_rows)"
proof
  assume zero: "th_val_of env k = 0"
  show "k \<notin> rr_combo ` set (reorder_rows (env\<lparr>giacenza := st\<rparr>) catalog_rows)"
  proof
    assume "k \<in> rr_combo ` set (reorder_rows (env\<lparr>giacenza := st\<rparr>) catalog_rows)"
    then obtain r where r: "r \<in> set (riordini_loop (env\<lparr>giacenza := st\<rparr>) [] catalog_rows)"
      and k: "k = rr_combo r"
      by (auto simp: reorder_rows_def)
    from riordini_loop_rows [OF r] have "th_val_of (env\<lparr>giacenza := st\<rparr>) (rr_combo r) \<noteq> 0"
      by simp
    with zero k show False by (simp add: th_val_of_giacenza)
  qed
qed

text \<open>
  Claim C6 on the marble article with threshold 0 and stock 0 or \<open>-4\<close>; with threshold 1
  the same article is listed.
\<close>

theorem threshold_zero_never_listed_witness:
  "th_val_of (marble_env None 0 0) marble_key = 0
   \<and> marble_key \<notin> rr_combo ` set (reorder_rows ((marble_env None 0 0)\<lparr>giacenza := (\<lambda>k. - 4)\<rparr>) [marble_key])
   \<and> reorder_rows (marble_env None 0 0) [marble_key] = []
   \<and> map rr_combo (reorder_rows (marble_env None 1 0) [marble_key]) = [marble_key]"
proof -
  have z: "th_val_of (marble_env None 0 0) marble_key = 0" by code_simp
  have e: "reorder_rows (marble_env None 0 0) [marble_key] = []" by code_simp
  have l: "map rr_combo (reorder_rows (marble_env None 1 0) [marble_key]) = [marble_key]" by code_simp
  from z threshold_zero_never_listed [of "marble_env None 0 0" marble_key "\<lambda>k. - 4" "[marble_key]"]
  have n: "marble_key \<notin> rr_combo ` set (reorder_rows ((marble_env None 0 0)\<lparr>giacenza := (\<lambda>k. - 4)\<rparr>) [marble_key])"
    by blast
  show ?thesis by (intro conjI z n e l)
qed

text \<open>
  Claim C7.  Every row of the reorder list has stock at most the threshold, and its
  suggested quantity is \<open>threshold + 1 - stock\<close> when no manual quantity is stored (then it
  is at least 1) or when \<open>stock + R \<le> threshold + 1\<close> for the stored manual quantity \<open>R\<close>,
  and \<open>R\<close> otherwise.  Stock 3 and threshold 5 give 3 with no manual quantity and 10 with
  \<open>R = 10\<close>.
\<close>

theorem suggested_quantity:
  "(\<forall>r \<in> set (reorder_rows env catalog_rows).
      rr_quantita_totale r = giacenza env (rr_combo r)
      \<and> rr_quantita_totale r \<le> th_val_of env (rr_combo r)
      \<and> rr_riordino_qty r =
          Some (suggest_spec (rr_quantita_totale r) (th_val_of env (rr_combo r))
                  (rq_manual_raw_of env (rr_combo r)))
      \<and> (rq_manual_raw_of env (rr_combo r) = None \<longrightarrow>
           rr_riordino_qty r = Some (th_val_of env (rr_combo r) + 1 - rr_quantita_totale r)
           \<and> 1 \<le> th_val_of env (rr_combo r) + 1 - rr_quantita_totale r))
   \<and> riordino_qty 3 5 None = Some 3
   \<and> riordino_qty 3 5 (Some 10) = Some 10"
proof -
  have rows: "rr_quantita_totale r = giacenza env (rr_combo r)
      \<and> rr_quantita_totale r \<le> th_val_of env (rr_combo r)
      \<and> rr_riordino_qty r =
          Some (suggest_spec (rr_quantita_totale r) (th_val_of env (rr_combo r))
                  (rq_manual_raw_of env (rr_combo r)))
      \<and> (rq_manual_raw_of env (rr_combo r) = None \<longrightarrow>
           rr_riordino_qty r = Some (th_val_of env (rr_combo r) + 1 - rr_quantita_totale r)
           \<and> 1 \<le> th_val_of env (rr_combo r) + 1 - rr_quantita_totale r)"
    if "r \<in> set (reorder_rows env catalog_rows)" for r
  proof -
    from that have "r \<in> set (riordini_loop env [] catalog_rows)" by (simp add: reorder_rows_def)
    from riordini_loop_rows [OF this]
    have tot: "rr_quantita_totale r = giacenza env (rr_combo r)"
      and le: "giacenza env (rr_combo r) \<le> th_val_of env (rr_combo r)"
      and rq: "rr_riordino_qty r =
           riordino_qty (giacenza env (rr_combo r)) (th_val_of env (rr_combo r))
             (rq_manual_of env (rr_combo r))"
      by simp_all
    have sug: "rr_riordino_qty r =
          Some (suggest_spec (rr_quantita_totale r) (th_val_of env (rr_combo r))
                  (rq_manual_raw_of env (rr_combo r)))"
      using riordino_qty_flagged [OF le, of "rq_manual_raw_of env (rr_combo r)"] rq tot
      by (simp add: rq_manual_of_def)
    from sug tot le show ?thesis by (auto simp: suggest_spec_def)
  qed
  have ex1: "riordino_qty 3 5 None = Some 3" by (simp add: riordino_qty_def)
  have ex2: "riordino_qty 3 5 (Some 10) = Some 10" by (simp add: riordino_qty_def)
  from rows ex1 ex2 show ?thesis by blast
qed

text \<open>Claim C7 on the marble article: no manual quantity, \<open>R = 10\<close> and \<open>R = 2\<close>.\<close>

theorem suggested_quantity_witness:
  "reorder_rows (marble_env None 5 3) [marble_key] =
     [\<lparr>rr_combo = marble_key, rr_quantita_totale = 3, rr_riordino_qty = Some 3\<rparr>]
   \<and> reorder_rows (marble_env (Some 10) 5 3) [marble_key] =
     [\<lparr>rr_combo = marble_key, rr_quantita_totale = 3, rr_riordino_qty = Some 10\<rparr>]
   \<and> reorder_rows (marble_env (Some 2) 5 3) [marble_key] =
     [\<lparr>rr_combo = marble_key, rr_quantita_totale = 3, rr_riordino_qty = Some 3\<rparr>]
   \<and> rr_riordino_qty (hd (reorder_rows (marble_env (Some 10) 5 3) [marble_key])) =
       Some (suggest_spec 3 5 (Some 10))"
proof -
  have a: "reorder_rows (marble_env None 5 3) [marble_key] =
     [\<lparr>rr_combo = marble_key, rr_quantita_totale = 3, rr_riordino_qty = Some 3\<rparr>]"
    by code_simp
  have b: "reorder_rows (marble_env (Some 10) 5 3) [marble_key] =
     [\<lparr>rr_combo = marble_key, rr_quantita_totale = 3, rr_riordino_qty = Some 10\<rparr>]"
    by code_simp
  have c: "reorder_rows (marble_env (Some 2) 5 3) [marble_key] =
     [\<lparr>rr_combo = marble_key, rr_quantita_totale = 3, rr_riordino_qty = Some 3\<rparr>]"
    by code_simp
  have th: "th_val_of (marble_env (Some 10) 5 3) marble_key = 5"
    and raw: "rq_manual_raw_of (marble_env (Some 10) 5 3) marble_key = Some 10"
    by code_simp+
  from b have mem: "hd (reorder_rows (marble_env (Some 10) 5 3) [marble_key])
      \<in> set (reorder_rows (marble_env (Some 10) 5 3) [marble_key])"
    by simp
  from b have k: "rr_combo (hd (reorder_rows (marble_env (Some 10) 5 3) [marble_key])) = marble_key"
    and t: "rr_quantita_totale (hd (reorder_rows (marble_env (Some 10) 5 3) [marble_key])) = 3"
    by simp_all
  from suggested_quantity [of "marble_env (Some 10) 5 3" "[marble_key]"] mem
  have "rr_riordino_qty (hd (reorder_rows (marble_env (Some 10) 5 3) [marble_key])) =
          Some (suggest_spec (rr_quantita_totale (hd (reorder_rows (marble_env (Some 10) 5 3) [marble_key])))
                  (th_val_of (marble_env (Some 10) 5 3) (rr_combo (hd (reorder_rows (marble_env (Some 10) 5 3) [marble_key]))))
                  (rq_manual_raw_of (marble_env (Some 10) 5 3) (rr_combo (hd (reorder_rows (marble_env (Some 10) 5 3) [marble_key])))))"
    by blast
  then have d: "rr_riordino_qty (hd (reorder_rows (marble_env (Some 10) 5 3) [marble_key])) =
       Some (suggest_spec 3 5 (Some 10))"
    by (simp only: k t th raw)
  show ?thesis by (intro conjI a b c d)
qed

text \<open>
  Claim C9, as amended.  \<^verbatim>\<open>update_soglia\<close> upserts the rule of the combination into the
  extended table, with the threshold of the form (never negative), and leaves the legacy
  table as it was; the save of the configuration page is the one that writes the
  threshold into both tables.
\<close>

theorem update_soglia_extended_only:
  "riordino_soglie (update_soglia f s) = riordino_soglie s
   \<and> riordino_soglie_ext (update_soglia f s) =
       (riordino_soglie_ext s)(form_combo f \<mapsto>
          \<lparr>threshold = soglia_val_of (sf_soglia f), quantita_riordino = Some (qr_val_of s f)\<rparr>)
   \<and> map_option threshold (riordino_soglie_ext (update_soglia f s) (form_combo f)) =
       Some (soglia_val_of (sf_soglia f))
   \<and> 0 \<le> soglia_val_of (sf_soglia f)
   \<and> map_option threshold (riordino_soglie_ext (config_upsert (mat, tp, sp, dx, dy, prd) th qr s)
        (mat, tp, sp, dx, dy, prd)) = Some th
   \<and> map_option threshold (riordino_soglie (config_upsert (mat, tp, sp, dx, dy, prd) th qr s)
        (mat, tp, sp)) = Some th"
  by (simp add: update_soglia_def config_upsert_def soglia_val_of_def DEFAULT_REORDER_THRESHOLD_def
      split: option.splits)

text \<open>
  Claim C9 as stated fails: with a legacy threshold of 5 for marble, setting the threshold
  of the marble article to 9 puts 9 in the extended table and leaves 5 in the legacy one.
\<close>

theorem update_soglia_legacy_counterexample:
  "map_option threshold (riordino_soglie_ext (update_soglia marble_form legacy_soglie) marble_key) = Some 9
   \<and> map_option threshold
        (riordino_soglie (update_soglia marble_form legacy_soglie) (''Marble'', ''Polished'', ''20mm'')) =
      Some 5
   \<and> map_option threshold
        (riordino_soglie (update_soglia marble_form legacy_soglie) (''Marble'', ''Polished'', ''20mm'')) \<noteq>
      Some 9"
  by code_simp

end
